theory Spec2Isabelle
  imports Complex_Main "HOL-Library.AList"
begin

section \<open>JavaScript values\<close>

text \<open>
  A JavaScript number is a finite value, one of the two infinities, or NaN. Finite values are
  taken as real numbers. The rounding of IEEE doubles is modelled where it changes a branch
  of the source (the intermediate \<open>a\<close> of \<open>haversineDistance\<close>, below) and is left out
  elsewhere.
\<close>

datatype number = Finite real | PosInfinity | NegInfinity | NaN

fun isFinite :: "number \<Rightarrow> bool" where
  "isFinite (Finite _) = True"
| "isFinite _ = False"

text \<open>The relational operators \<open><\<close> and \<open><=\<close> on numbers: every comparison with NaN is false.\<close>

fun num_lt :: "number \<Rightarrow> number \<Rightarrow> bool" where
  "num_lt NaN _ = False"
| "num_lt _ NaN = False"
| "num_lt (Finite x) (Finite y) = (x < y)"
| "num_lt (Finite _) PosInfinity = True"
| "num_lt (Finite _) NegInfinity = False"
| "num_lt PosInfinity _ = False"
| "num_lt NegInfinity NegInfinity = False"
| "num_lt NegInfinity _ = True"

fun num_le :: "number \<Rightarrow> number \<Rightarrow> bool" where
  "num_le NaN _ = False"
| "num_le _ NaN = False"
| "num_le (Finite x) (Finite y) = (x \<le> y)"
| "num_le (Finite _) PosInfinity = True"
| "num_le (Finite _) NegInfinity = False"
| "num_le PosInfinity PosInfinity = True"
| "num_le PosInfinity _ = False"
| "num_le NegInfinity _ = True"

text \<open>
  The values a Firestore document or a call argument can hold. An object is the list of its
  own properties, in their order.
\<close>

datatype jsval =
    Undefined
  | Null
  | Bool bool
  | Num number
  | Str string
  | Arr "jsval list"
  | Obj "(string \<times> jsval) list"

text \<open>\<open>Boolean(v)\<close>: false for undefined, null, false, 0, NaN and the empty string.\<close>

fun truthy :: "jsval \<Rightarrow> bool" where
  "truthy Undefined = False"
| "truthy Null = False"
| "truthy (Bool b) = b"
| "truthy (Num n) = (n \<noteq> Finite 0 \<and> n \<noteq> NaN)"
| "truthy (Str s) = (s \<noteq> [])"
| "truthy (Arr _) = True"
| "truthy (Obj _) = True"

text \<open>\<open>a && b\<close>, \<open>a || b\<close> and \<open>a ?? b\<close> on values.\<close>

definition js_and :: "jsval \<Rightarrow> jsval \<Rightarrow> jsval" where
  "js_and a b = (if truthy a then b else a)"

definition js_or :: "jsval \<Rightarrow> jsval \<Rightarrow> jsval" where
  "js_or a b = (if truthy a then a else b)"

definition nullish :: "jsval \<Rightarrow> bool" where
  "nullish v = (v = Undefined \<or> v = Null)"

definition coalesce :: "jsval \<Rightarrow> jsval \<Rightarrow> jsval" where
  "coalesce a b = (if nullish a then b else a)"

text \<open>
  \<open>v?.key\<close>: undefined on null and undefined, the property of an object, and undefined for
  a key the value does not have (none of the keys read here is a property of a primitive or
  of an array). The guarded reads \<open>v.key\<close> of the source are on values known to be truthy,
  where they agree with it.
\<close>

definition getProp :: "jsval \<Rightarrow> string \<Rightarrow> jsval" where
  "getProp v key =
     (case v of
        Obj props \<Rightarrow> (case map_of props key of Some x \<Rightarrow> x | None \<Rightarrow> Undefined)
      | _ \<Rightarrow> Undefined)"

text \<open>The object with one property written: in place when present, added last otherwise.\<close>

definition setProp :: "jsval \<Rightarrow> string \<Rightarrow> jsval \<Rightarrow> jsval" where
  "setProp v key x =
     (case v of
        Obj props \<Rightarrow> Obj (AList.update key x props)
      | _ \<Rightarrow> Obj [(key, x)])"

text \<open>\<open>Number.isFinite(v)\<close>: true for a finite number only, without conversion.\<close>

definition numberIsFinite :: "jsval \<Rightarrow> bool" where
  "numberIsFinite v = (case v of Num n \<Rightarrow> isFinite n | _ \<Rightarrow> False)"

text \<open>
  \<open>Number(v)\<close>. The conversion of a string, an array or an object is the engine's
  (the numeric string grammar, \<open>ToPrimitive\<close>); it is the parameter \<open>toNumber\<close>.
\<close>

definition Number :: "(jsval \<Rightarrow> number) \<Rightarrow> jsval \<Rightarrow> number" where
  "Number toNumber v =
     (case v of
        Undefined \<Rightarrow> NaN
      | Null \<Rightarrow> Finite 0
      | Bool b \<Rightarrow> Finite (if b then 1 else 0)
      | Num n \<Rightarrow> n
      | _ \<Rightarrow> toNumber v)"

definition finiteOrZero :: "number \<Rightarrow> real" where
  "finiteOrZero n = (case n of Finite r \<Rightarrow> r | _ \<Rightarrow> 0)"

text \<open>\<open>String.prototype.toLowerCase\<close> on the ASCII letters; other characters are kept.\<close>

definition lowerChar :: "char \<Rightarrow> char" where
  "lowerChar c =
     (let n = (of_char c :: nat) in if 65 \<le> n \<and> n \<le> 90 then char_of (n + 32) else c)"

definition toLowerCase :: "string \<Rightarrow> string" where
  "toLowerCase s = map lowerChar s"

section \<open>MapScreen: great-circle distance\<close>

text \<open>
  A point is any object with \<open>latitude\<close> and \<open>longitude\<close>; route stops and the bus location
  extend it with further fields, as the objects of the source do.
\<close>

record point =
  latitude :: number
  longitude :: number

definition ARRIVAL_DISTANCE_THRESHOLD :: real where
  "ARRIVAL_DISTANCE_THRESHOLD = 140"

definition EARTH_RADIUS :: real where
  "EARTH_RADIUS = 6371000"

definition toRad :: "real \<Rightarrow> real" where
  "toRad v = (v * pi) / 180"

text \<open>\<open>Math.atan2(y, x)\<close> on real arguments.\<close>

definition atan2 :: "real \<Rightarrow> real \<Rightarrow> real" where
  "atan2 y x =
     (if 0 < x then arctan (y / x)
      else if x < 0 then (if 0 \<le> y then arctan (y / x) + pi else arctan (y / x) - pi)
      else if 0 < y then pi / 2
      else if y < 0 then - (pi / 2)
      else 0)"

text \<open>
  The intermediate \<open>a\<close> of \<open>haversineDistance\<close> in exact arithmetic. It lies between 0
  and 1.
\<close>

definition haversine_a :: "real \<Rightarrow> real \<Rightarrow> real \<Rightarrow> real \<Rightarrow> real" where
  "haversine_a lat1 lon1 lat2 lon2 =
     (let deltaLat = toRad (lat2 - lat1);
          deltaLon = toRad (lon2 - lon1)
      in (sin (deltaLat / 2))\<^sup>2 + cos (toRad lat1) * cos (toRad lat2) * (sin (deltaLon / 2))\<^sup>2)"

text \<open>
  In doubles the value of \<open>a\<close> is rounded, and nothing clamps it: it can come out above 1
  (or below 0, or NaN when a difference of coordinates overflows). \<open>Math.sqrt\<close> of a
  negative number is NaN, and NaN goes through \<open>Math.atan2\<close> and the products, so the
  distance is then NaN. The value the engine computes for \<open>a\<close> at given coordinates is
  the parameter \<open>arith\<close> of the model; \<open>exactA\<close> is the engine without rounding.
\<close>

type_synonym arithmetic = "real \<Rightarrow> real \<Rightarrow> real \<Rightarrow> real \<Rightarrow> number"

definition exactA :: arithmetic where
  "exactA lat1 lon1 lat2 lon2 = Finite (haversine_a lat1 lon1 lat2 lon2)"

text \<open>
  An engine that is exact except at the points (0.08, 0) and (-0.08, 180), which are
  antipodal. There \<open>sin\<^sup>2\<close> and \<open>cos\<^sup>2\<close> of the same angle are added, and IEEE double
  arithmetic gives 1.0000000000000002, that is \<open>1 + 2\<^sup>-\<^sup>5\<^sup>2\<close>.
\<close>

definition doubleA :: arithmetic where
  "doubleA lat1 lon1 lat2 lon2 =
     (if lat1 = 0.08 \<and> lon1 = 0 \<and> lat2 = - 0.08 \<and> lon2 = 180 then Finite (1 + 1 / 2 ^ 52)
      else exactA lat1 lon1 lat2 lon2)"

definition haversineDistance :: "arithmetic \<Rightarrow> 'a point_scheme \<Rightarrow> 'b point_scheme \<Rightarrow> number" where
  "haversineDistance arith pointA pointB =
     (case (latitude pointA, longitude pointA, latitude pointB, longitude pointB) of
        (Finite lat1, Finite lon1, Finite lat2, Finite lon2) \<Rightarrow>
          (case arith lat1 lon1 lat2 lon2 of
             Finite a \<Rightarrow>
               (if a < 0 \<or> 1 < a then NaN
                else Finite (EARTH_RADIUS * (2 * atan2 (sqrt a) (sqrt (1 - a)))))
           | _ \<Rightarrow> NaN)
      | _ \<Rightarrow> PosInfinity)"

section \<open>MapScreen: route progress\<close>

text \<open>
  A route stop as \<open>normaliseRouteStops\<close> and the default table give it; \<open>time\<close> is optional.
  The bus location is the object the subscriber stores: its speed and heading are stored
  only after \<open>Number.isFinite(...) ? ... : 0\<close>, so they are finite reals.
\<close>

record route_stop = point +
  stop_id :: string
  name :: string
  time :: "string option"

record bus_location = point +
  speed :: real
  heading :: real
  updatedAt :: jsval

datatype stop_status = Completed | Current | Next | Upcoming

record enriched_stop = route_stop +
  distanceMeters :: "number option"

record decorated_stop = enriched_stop +
  status :: stop_status
  etaLabel :: string

record route_progress =
  stops :: "decorated_stop list"
  currentIndex :: int
  nextIndex :: int

text \<open>\<open>stop.time ? ... : ...\<close>: a missing or empty time is falsy.\<close>

definition hasTime :: "'a route_stop_scheme \<Rightarrow> bool" where
  "hasTime stop = (case time stop of None \<Rightarrow> False | Some t \<Rightarrow> t \<noteq> [])"

definition timeText :: "'a route_stop_scheme \<Rightarrow> string" where
  "timeText stop = (case time stop of None \<Rightarrow> [] | Some t \<Rightarrow> t)"

text \<open>Decimal digits of a natural number, as a template literal prints an integer.\<close>

fun string_of_nat :: "nat \<Rightarrow> string" where
  "string_of_nat n =
     (if n < 10 then [char_of (48 + n)]
      else string_of_nat (n div 10) @ [char_of (48 + n mod 10)])"

declare string_of_nat.simps [simp del]

definition string_of_int :: "int \<Rightarrow> string" where
  "string_of_int i = (if i < 0 then CHR ''-'' # string_of_nat (nat (- i)) else string_of_nat (nat i))"

text \<open>
  \<open>etaForDistance\<close>, a closure over \<open>busSpeed\<close>. \<open>Math.round\<close> rounds halves up, which is
  \<^const>\<open>round\<close>. The minutes are printed in decimal digits (JavaScript does so below
  \<open>10\<^sup>2\<^sup>1\<close>).
\<close>

definition etaForDistance :: "real \<Rightarrow> number \<Rightarrow> string" where
  "etaForDistance busSpeed distance =
     (case distance of
        Finite d \<Rightarrow>
          (if busSpeed \<le> 0.5 then ''Awaiting movement''
           else (let minutes = max (round ((d / max busSpeed 0.1) / 60)) 1
                 in if minutes \<le> 1 then ''Arriving now''
                    else ''Arriving in '' @ string_of_int minutes @ '' min''))
      | _ \<Rightarrow> [])"

definition enrich :: "arithmetic \<Rightarrow> bus_location option \<Rightarrow> route_stop \<Rightarrow> enriched_stop" where
  "enrich arith busLocation stop =
     route_stop.extend stop
       (enriched_stop.fields
          (case busLocation of None \<Rightarrow> None | Some loc \<Rightarrow> Some (haversineDistance arith loc stop)))"

definition decorate :: "enriched_stop \<Rightarrow> stop_status \<Rightarrow> string \<Rightarrow> decorated_stop" where
  "decorate stop st label = enriched_stop.extend stop (decorated_stop.fields st label)"

text \<open>
  \<open>typeof stop.distanceMeters === 'number' ? stop.distanceMeters : Number.POSITIVE_INFINITY\<close>
\<close>

definition distanceOrInfinity :: "enriched_stop \<Rightarrow> number" where
  "distanceOrInfinity stop = (case distanceMeters stop of Some d \<Rightarrow> d | None \<Rightarrow> PosInfinity)"

text \<open>
  \<open>distances.reduce((best, distance, idx) => (distance < distances[best] ? idx : best), 0)\<close>:
  the loop over the remaining elements, with the index of the element at hand. Reading
  \<open>distances[best]\<close> out of range gives \<open>undefined\<close>, and the comparison is then false.
\<close>

definition lessThanAt :: "number \<Rightarrow> number list \<Rightarrow> nat \<Rightarrow> bool" where
  "lessThanAt distance distances best =
     (best < length distances \<and> num_lt distance (distances ! best))"

fun reduceNearest :: "number list \<Rightarrow> nat \<Rightarrow> nat \<Rightarrow> number list \<Rightarrow> nat" where
  "reduceNearest distances best idx [] = best"
| "reduceNearest distances best idx (distance # rest) =
     reduceNearest distances (if lessThanAt distance distances best then idx else best) (Suc idx) rest"

definition nearestIndexOf :: "number list \<Rightarrow> nat" where
  "nearestIndexOf distances = reduceNearest distances 0 0 distances"

definition isAtStopOf :: "number list \<Rightarrow> bool" where
  "isAtStopOf distances =
     (nearestIndexOf distances < length distances \<and>
      num_le (distances ! nearestIndexOf distances) (Finite ARRIVAL_DISTANCE_THRESHOLD))"

definition decorateIdle :: "nat \<times> enriched_stop \<Rightarrow> decorated_stop" where
  "decorateIdle p =
     (case p of (index, stop) \<Rightarrow>
        decorate stop (if index = 0 then Next else Upcoming)
          (if hasTime stop then ''ETA '' @ timeText stop else ''Upcoming stop''))"

definition decorateTracked ::
  "real \<Rightarrow> bool \<Rightarrow> int \<Rightarrow> int \<Rightarrow> int \<Rightarrow> nat \<times> enriched_stop \<Rightarrow> decorated_stop" where
  "decorateTracked busSpeed isAtStop nearestIndex nextIdx lastCompletedIndex p =
     (case p of (idx, stop) \<Rightarrow>
        (let status0 = (if int idx \<le> lastCompletedIndex then Completed else Upcoming);
             status1 = (if isAtStop \<and> int idx = nearestIndex then Current
                        else if int idx = nextIdx then Next
                        else status0);
             label = (case status1 of
                        Completed \<Rightarrow>
                          (if hasTime stop then ''Departed at '' @ timeText stop else ''Departed'')
                      | Current \<Rightarrow> ''At stop''
                      | Next \<Rightarrow>
                          (case distanceMeters stop of
                             Some d \<Rightarrow> etaForDistance busSpeed d
                           | None \<Rightarrow> [])
                      | Upcoming \<Rightarrow>
                          (if hasTime stop then ''Scheduled '' @ timeText stop else ''Upcoming stop''))
         in decorate stop status1 label))"

definition routeProgress ::
  "arithmetic \<Rightarrow> route_stop list \<Rightarrow> bus_location option \<Rightarrow> bool \<Rightarrow> real \<Rightarrow> route_progress" where
  "routeProgress arith routeStops busLocation isBusTracking busSpeed =
     (if routeStops = [] then \<lparr>stops = [], currentIndex = - 1, nextIndex = - 1\<rparr>
      else
        (let enrichedStops = map (enrich arith busLocation) routeStops
         in if busLocation = None \<or> \<not> isBusTracking then
              \<lparr>stops = map decorateIdle (enumerate 0 enrichedStops),
               currentIndex = - 1,
               nextIndex = (if enrichedStops \<noteq> [] then 0 else - 1)\<rparr>
            else
              (let distances = map distanceOrInfinity enrichedStops;
                   nearestIndex = int (nearestIndexOf distances);
                   isAtStop = isAtStopOf distances;
                   currentIdx = (if isAtStop then nearestIndex else - 1);
                   nextIdx0 = (if isAtStop then nearestIndex + 1 else nearestIndex);
                   nextIdx = (if nextIdx0 \<ge> int (length enrichedStops) then - 1 else nextIdx0);
                   lastCompletedIndex = max (nearestIndex - 1) (- 1)
               in \<lparr>stops = map (decorateTracked busSpeed isAtStop nearestIndex nextIdx
                                  lastCompletedIndex)
                             (enumerate 0 enrichedStops),
                   currentIndex = currentIdx,
                   nextIndex = nextIdx\<rparr>)))"

definition busSpeedOf :: "bus_location option \<Rightarrow> real" where
  "busSpeedOf busLocation = (case busLocation of None \<Rightarrow> 0 | Some loc \<Rightarrow> speed loc)"

section \<open>MapScreen: the bus-location subscriber\<close>

record map_state =
  busLocation :: "bus_location option"
  isBusTracking :: bool

text \<open>
  The snapshot callback passed to \<open>subscribeToBusLocation\<close>. \<open>now\<close> is \<open>Date.now()\<close>.
  The coordinates are stored only when \<open>Number.isFinite\<close> holds of both, and
  \<open>Number\<close> of a finite number is that number.
\<close>

definition onBusSnapshot :: "(jsval \<Rightarrow> number) \<Rightarrow> real \<Rightarrow> jsval \<Rightarrow> map_state" where
  "onBusSnapshot toNumber now snapshot =
     (let sessionMarker =
            coalesce (getProp snapshot ''activeTrackingSession'') (getProp snapshot ''trackingSessionId'');
          trackingActive =
            truthy (js_and (getProp snapshot ''isTracking'')
                      (if sessionMarker \<noteq> Undefined then sessionMarker
                       else getProp snapshot ''isTracking''));
          coords = getProp snapshot ''currentLocation'';
          hasValidCoords =
            (numberIsFinite (getProp coords ''latitude'') \<and>
             numberIsFinite (getProp coords ''longitude''))
      in if trackingActive \<and> hasValidCoords then
           (let normalizedSpeed =
                  Number toNumber
                    (coalesce (coalesce (getProp snapshot ''speed'') (getProp coords ''speed''))
                       (Num (Finite 0)));
                normalizedHeading =
                  Number toNumber
                    (coalesce (coalesce (getProp snapshot ''heading'') (getProp coords ''heading''))
                       (Num (Finite 0)))
            in \<lparr>busLocation =
                   Some \<lparr>latitude = Number toNumber (getProp coords ''latitude''),
                         longitude = Number toNumber (getProp coords ''longitude''),
                         speed = finiteOrZero normalizedSpeed,
                         heading = finiteOrZero normalizedHeading,
                         updatedAt = js_or (getProp snapshot ''lastUpdate'') (Num (Finite now))\<rparr>,
                 isBusTracking = True\<rparr>)
         else \<lparr>busLocation = None, isBusTracking = False\<rparr>)"

text \<open>The error callback of the same subscription.\<close>

definition onBusError :: map_state where
  "onBusError = \<lparr>busLocation = None, isBusTracking = False\<rparr>"

section \<open>BusLiveTrackingScreen: the bus-location subscriber\<close>

text \<open>
  The screen keeps \<open>busLocation\<close> (null or the object built below) and \<open>loading\<close>; there is
  no separate tracking flag, the object carries \<open>isTracking\<close>. \<open>busDriver\<close> is \<open>bus.driver\<close>
  of the navigation parameters. The camera animation and the logging are left out.
\<close>

record live_state =
  liveBusLocation :: jsval
  loading :: bool

definition onLiveLocation :: "jsval \<Rightarrow> jsval \<Rightarrow> live_state" where
  "onLiveLocation busDriver locationData =
     (let isTrackingActive =
            truthy (js_and (getProp locationData ''isTracking'')
                      (coalesce
                         (coalesce (getProp locationData ''activeTrackingSession'')
                            (getProp locationData ''trackingSessionId''))
                         (getProp locationData ''isTracking'')))
      in if truthy locationData \<and> truthy (getProp locationData ''currentLocation'') \<and>
            isTrackingActive then
           (let currentLocation = getProp locationData ''currentLocation'';
                newLocation =
                  Obj [(''latitude'', getProp currentLocation ''latitude''),
                       (''longitude'', getProp currentLocation ''longitude''),
                       (''timestamp'', getProp locationData ''lastUpdate''),
                       (''driverName'',
                          js_or (js_or (getProp locationData ''driverName'') busDriver) (Str ''Driver'')),
                       (''isTracking'', Bool isTrackingActive),
                       (''speed'', getProp locationData ''speed''),
                       (''accuracy'', getProp locationData ''accuracy''),
                       (''heading'', js_or (getProp locationData ''heading'') (Num (Finite 0)))]
            in \<lparr>liveBusLocation = newLocation, loading = False\<rparr>)
         else if truthy locationData \<and> \<not> isTrackingActive then
           \<lparr>liveBusLocation = Null, loading = False\<rparr>
         else \<lparr>liveBusLocation = Null, loading = False\<rparr>)"

text \<open>The bus marker and the LIVE card are rendered when \<open>busLocation && busLocation.isTracking\<close>.\<close>

definition liveMarkerShown :: "live_state \<Rightarrow> bool" where
  "liveMarkerShown st =
     truthy (js_and (liveBusLocation st) (getProp (liveBusLocation st) ''isTracking''))"

section \<open>Notification server: recipients and token pruning\<close>

text \<open>
  The \<open>users\<close> collection: documents in the order a query returns them, each with its id
  and its data. Reads and writes address the first document of an id. The store itself does
  not fail here; a missing document is the one failure of \<open>update\<close> that is modelled.
\<close>

type_synonym users = "(string \<times> jsval) list"

datatype error =
    TypeError
  | NotFound
  | BusNumberRequired
  | InvalidPath
  | AllEndpointsFailed "(string \<times> string) list"

record recipient =
  uid :: string
  role :: string
  busNumber :: "jsval option"
  tokens :: "jsval list"

definition TARGET_ROLES :: "string list" where
  "TARGET_ROLES = [''student'', ''coadmin'', ''incharge'']"

text \<open>\<open>collection.where(field, '==', value).get()\<close>, the matching documents.\<close>

definition whereEq :: "users \<Rightarrow> string \<Rightarrow> jsval \<Rightarrow> users" where
  "whereEq db field v = filter (\<lambda>doc. getProp (snd doc) field = v) db"

text \<open>\<open>Array.isArray(data.fcmTokens) ? data.fcmTokens.filter(Boolean) : []\<close>\<close>

definition tokensOf :: "jsval \<Rightarrow> jsval list" where
  "tokensOf data = (case getProp data ''fcmTokens'' of Arr xs \<Rightarrow> filter truthy xs | _ \<Rightarrow> [])"

text \<open>\<open>v.toLowerCase()\<close> on a value: a string has the method, any other value raises.\<close>

definition callToLowerCase :: "jsval \<Rightarrow> error + string" where
  "callToLowerCase v = (case v of Str s \<Rightarrow> Inr (toLowerCase s) | _ \<Rightarrow> Inl TypeError)"

text \<open>
  The callback of \<open>snapshot.docs.map\<close> in \<open>getRecipientsByBus\<close>: null for a role outside
  \<open>TARGET_ROLES\<close>; and the \<open>map\<close> itself, which stops at the first exception.
\<close>

definition busRecipient :: "string \<times> jsval \<Rightarrow> error + recipient option" where
  "busRecipient doc =
     (case doc of (docId, data) \<Rightarrow>
        (case callToLowerCase (js_or (getProp data ''role'') (Str [])) of
           Inl e \<Rightarrow> Inl e
         | Inr r \<Rightarrow>
             (if r \<notin> set TARGET_ROLES then Inr None
              else Inr (Some \<lparr>uid = docId, role = r,
                               busNumber = Some (getProp data ''busNumber''),
                               tokens = tokensOf data\<rparr>))))"

fun mapDocs :: "('a \<Rightarrow> error + 'b) \<Rightarrow> 'a list \<Rightarrow> error + 'b list" where
  "mapDocs f [] = Inr []"
| "mapDocs f (x # xs) =
     (case f x of
        Inl e \<Rightarrow> Inl e
      | Inr y \<Rightarrow> (case mapDocs f xs of Inl e \<Rightarrow> Inl e | Inr ys \<Rightarrow> Inr (y # ys)))"

text \<open>\<open>.filter(Boolean)\<close> on the mapped documents: the nulls are dropped.\<close>

fun dropNulls :: "'a option list \<Rightarrow> 'a list" where
  "dropNulls [] = []"
| "dropNulls (None # xs) = dropNulls xs"
| "dropNulls (Some x # xs) = x # dropNulls xs"

definition getRecipientsByBus :: "users \<Rightarrow> jsval \<Rightarrow> error + recipient list" where
  "getRecipientsByBus db busNo =
     (if \<not> truthy busNo then Inr []
      else
        (let docs = whereEq db ''busNumber'' busNo
         in if docs = [] then Inr []
            else (case mapDocs busRecipient docs of
                    Inl e \<Rightarrow> Inl e
                  | Inr rs \<Rightarrow> Inr (dropNulls rs))))"

definition roleRecipient :: "string \<Rightarrow> string \<times> jsval \<Rightarrow> recipient" where
  "roleRecipient normalizedRole doc =
     (case doc of (docId, data) \<Rightarrow>
        \<lparr>uid = docId, role = normalizedRole, busNumber = None, tokens = tokensOf data\<rparr>)"

definition getRecipientsByRole :: "users \<Rightarrow> jsval \<Rightarrow> error + recipient list" where
  "getRecipientsByRole db roleArg =
     (if \<not> truthy roleArg then Inr []
      else
        (case callToLowerCase roleArg of
           Inl e \<Rightarrow> Inl e
         | Inr normalizedRole \<Rightarrow>
             (let docs = whereEq db ''role'' (Str normalizedRole)
              in if docs = [] then Inr []
                 else Inr (map (roleRecipient normalizedRole) docs))))"

definition getTokensForUser :: "users \<Rightarrow> string \<Rightarrow> jsval list" where
  "getTokensForUser db userId =
     (if userId = [] then []
      else (case map_of db userId of None \<Rightarrow> [] | Some data \<Rightarrow> tokensOf data))"

text \<open>
  \<open>FieldValue.arrayRemove(...tokens)\<close> applied to a field by \<open>update\<close>, as Firestore
  documents it: every occurrence of the given elements is removed, and a field that is not
  an array becomes the empty array.
\<close>

definition arrayRemove :: "jsval list \<Rightarrow> jsval \<Rightarrow> jsval" where
  "arrayRemove elements field =
     (case field of Arr xs \<Rightarrow> Arr (filter (\<lambda>x. x \<notin> set elements) xs) | _ \<Rightarrow> Arr [])"

text \<open>\<open>docRef.update\<close>: it fails when the document does not exist.\<close>

fun updateDoc :: "users \<Rightarrow> string \<Rightarrow> (jsval \<Rightarrow> jsval) \<Rightarrow> error + users" where
  "updateDoc [] docId change = Inl NotFound"
| "updateDoc (doc # rest) docId change =
     (if fst doc = docId then Inr ((docId, change (snd doc)) # rest)
      else (case updateDoc rest docId change of
              Inl e \<Rightarrow> Inl e
            | Inr rest' \<Rightarrow> Inr (doc # rest')))"

text \<open>
  \<open>removeTokens\<close>: the result is the store afterwards. The failure of \<open>update\<close> is caught
  and logged, so the store is then as before.
\<close>

definition removeTokens :: "users \<Rightarrow> string \<Rightarrow> jsval list \<Rightarrow> error + users" where
  "removeTokens db userId toks =
     (if userId = [] \<or> length toks = 0 then Inr db
      else
        (case updateDoc db userId
                (\<lambda>data. setProp data ''fcmTokens'' (arrayRemove toks (getProp data ''fcmTokens''))) of
           Inl e \<Rightarrow> Inr db
         | Inr db' \<Rightarrow> Inr db'))"

text \<open>The tokens a user document holds, as a set.\<close>

definition tokenSet :: "users \<Rightarrow> string \<Rightarrow> jsval set" where
  "tokenSet db userId =
     (case map_of db userId of
        None \<Rightarrow> {}
      | Some data \<Rightarrow> (case getProp data ''fcmTokens'' of Arr xs \<Rightarrow> set xs | _ \<Rightarrow> {}))"

text \<open>A token string is blank when it is empty or has white space only.\<close>

definition isWhitespace :: "char \<Rightarrow> bool" where
  "isWhitespace c = ((of_char c :: nat) \<in> {9, 10, 11, 12, 13, 32})"

definition isBlank :: "jsval \<Rightarrow> bool" where
  "isBlank v = (case v of Str s \<Rightarrow> list_all isWhitespace s | _ \<Rightarrow> False)"

section \<open>Mobile client: the trip-start request\<close>

text \<open>
  What \<open>fetch\<close> and the reading of the response come to: the request fails, or a response
  arrives with its \<open>ok\<close> flag, status, text and, when the body parses, its JSON value.
  The network is the parameter \<open>fetch\<close>, from URL and body; the candidate base URLs come
  from the configuration and are a parameter too. The body is the value given to
  \<open>JSON.stringify\<close>.
\<close>

datatype response =
    NetworkError string
  | Response bool nat string "jsval option"

type_synonym request = "string \<times> jsval"

definition startsWithSlash :: "string \<Rightarrow> bool" where
  "startsWithSlash path = (case path of [] \<Rightarrow> False | c # _ \<Rightarrow> c = CHR ''/'')"

text \<open>
  The loop of \<open>postJson\<close> over the candidates, with the errors collected so far. The result
  comes with the requests sent, in order.
\<close>

fun tryCandidates ::
  "(string \<Rightarrow> jsval \<Rightarrow> response) \<Rightarrow> string \<Rightarrow> jsval \<Rightarrow> string list \<Rightarrow> (string \<times> string) list
     \<Rightarrow> (error + jsval) \<times> request list" where
  "tryCandidates fetch path body [] errors = (Inl (AllEndpointsFailed errors), [])"
| "tryCandidates fetch path body (baseUrl # rest) errors =
     (let sent = (baseUrl @ path, body);
          continue = (\<lambda>message.
             (case tryCandidates fetch path body rest (errors @ [(baseUrl, message)]) of
                (r, reqs) \<Rightarrow> (r, sent # reqs)))
      in case fetch (baseUrl @ path) body of
           NetworkError message \<Rightarrow> continue message
         | Response ok st bodyText json \<Rightarrow>
             (if \<not> ok then continue (if bodyText \<noteq> [] then bodyText else ''HTTP '' @ string_of_nat st)
              else (case json of
                      None \<Rightarrow> continue ''JSON Parse error''
                    | Some data \<Rightarrow> (Inr data, [sent]))))"

definition postJson ::
  "string list \<Rightarrow> (string \<Rightarrow> jsval \<Rightarrow> response) \<Rightarrow> string \<Rightarrow> jsval
     \<Rightarrow> (error + jsval) \<times> request list" where
  "postJson candidates fetch path body =
     (if \<not> startsWithSlash path then (Inl InvalidPath, [])
      else tryCandidates fetch path (js_or body (Obj [])) candidates [])"

text \<open>A parameter with the default \<open>null\<close> takes it when the argument is undefined.\<close>

definition defaultNull :: "jsval \<Rightarrow> jsval" where
  "defaultNull v = (if v = Undefined then Null else v)"

definition startBusPayload :: "jsval \<Rightarrow> jsval \<Rightarrow> jsval \<Rightarrow> jsval \<Rightarrow> jsval" where
  "startBusPayload busNo driverName excludeUid excludeToken =
     Obj [(''busNumber'', busNo),
          (''driverName'', driverName),
          (''initiatedBy'', js_or (defaultNull excludeUid) Null),
          (''excludeToken'', js_or (defaultNull excludeToken) Null)]"

definition notifyBusTrackingStarted ::
  "string list \<Rightarrow> (string \<Rightarrow> jsval \<Rightarrow> response) \<Rightarrow> jsval \<Rightarrow> jsval \<Rightarrow> jsval \<Rightarrow> jsval
     \<Rightarrow> (error + jsval) \<times> request list" where
  "notifyBusTrackingStarted candidates fetch busNo driverName excludeUid excludeToken =
     (if \<not> truthy busNo then (Inl BusNumberRequired, [])
      else postJson candidates fetch ''/startBus''
             (startBusPayload busNo driverName excludeUid excludeToken))"

section \<open>Location service: the admission filter\<close>

text \<open>
  Modelled from the spec: the admission filter \<open>admit\<close> of the location service
  (\<open>locationService.updateBusLocation\<close>), which is not among the sources. The spec has it
  reject a candidate when a previous committed sample exists and both the great-circle
  distance between the two is below 20 metres and the time since the previous capture is
  below 4 seconds; the distance is the haversine distance on a sphere of radius 6 371 000 m,
  computed as \<open>haversineDistance\<close> does, with the same parameter for the arithmetic.
  \<open>capturedAt\<close> is in seconds.
\<close>

record location_sample = point +
  vehicleId :: string
  speedMetersPerSecond :: real
  headingDegrees :: real
  capturedAt :: real

datatype decision = Accept | Reject

definition admit :: "arithmetic \<Rightarrow> location_sample option \<Rightarrow> location_sample \<Rightarrow> decision" where
  "admit arith previous candidate =
     (case previous of
        None \<Rightarrow> Accept
      | Some prev \<Rightarrow>
          (if num_lt (haversineDistance arith prev candidate) (Finite 20) \<and>
              capturedAt candidate - capturedAt prev < 4
           then Reject else Accept))"

section \<open>Properties of the comparisons and of the nearest index\<close>

text \<open>
  On numbers other than NaN the comparison is a total order, and the loop of \<open>reduce\<close>
  keeps the first index of a least element.
\<close>

lemma num_lt_irrefl [simp]: "\<not> num_lt a a"
  by (cases a) simp_all

lemma num_le_iff_not_lt: "a \<noteq> NaN \<Longrightarrow> b \<noteq> NaN \<Longrightarrow> num_le a b = (\<not> num_lt b a)"
  by (cases a; cases b) auto

lemma num_lt_below: "x \<noteq> NaN \<Longrightarrow> \<not> num_lt x b \<Longrightarrow> num_lt y b \<Longrightarrow> num_lt y x"
  by (cases x; cases b; cases y) auto

lemma num_lt_asym: "num_lt a b \<Longrightarrow> \<not> num_lt b a"
  by (cases a; cases b) auto

lemma reduceNearest_inv:
  assumes "\<forall>d \<in> set ds. d \<noteq> NaN"
    and "rest = drop idx ds" and "best < length ds" and "best \<le> idx"
    and "\<forall>j<idx. \<not> num_lt (ds ! j) (ds ! best)"
    and "\<forall>j<best. num_lt (ds ! best) (ds ! j)"
  shows "reduceNearest ds best idx rest < length ds \<and>
         (\<forall>j<length ds. \<not> num_lt (ds ! j) (ds ! reduceNearest ds best idx rest)) \<and>
         (\<forall>j<reduceNearest ds best idx rest. num_lt (ds ! reduceNearest ds best idx rest) (ds ! j))"
  using assms
proof (induction rest arbitrary: best idx)
  case Nil
  then have "length ds \<le> idx" by simp
  with Nil show ?case by simp
next
  case (Cons d rest)
  from Cons.prems(2) have idx: "idx < length ds"
    by (metis drop_all list.distinct(1) not_le)
  from Cons.prems(2) have d: "d = ds ! idx" and rest: "rest = drop (Suc idx) ds"
    by (metis Cons_nth_drop_Suc idx list.inject)+
  have ord: "\<And>j. j < length ds \<Longrightarrow> ds ! j \<noteq> NaN"
    using Cons.prems(1) by simp
  show ?case
  proof (cases "lessThanAt d ds best")
    case True
    then have lt: "num_lt (ds ! idx) (ds ! best)"
      by (simp add: lessThanAt_def d)
    have a: "\<forall>j<Suc idx. \<not> num_lt (ds ! j) (ds ! idx)"
    proof (intro allI impI)
      fix j assume "j < Suc idx"
      show "\<not> num_lt (ds ! j) (ds ! idx)"
      proof (cases "j = idx")
        case True then show ?thesis by simp
      next
        case False
        with \<open>j < Suc idx\<close> have "j < idx" by simp
        then have "num_lt (ds ! idx) (ds ! j)"
          using Cons.prems(5) lt ord idx num_lt_below by (metis less_trans)
        then show ?thesis by (rule num_lt_asym)
      qed
    qed
    have b: "\<forall>j<idx. num_lt (ds ! idx) (ds ! j)"
      using Cons.prems(5) lt ord idx num_lt_below by (metis less_trans)
    have "reduceNearest ds best idx (d # rest) = reduceNearest ds idx (Suc idx) rest"
      using True by simp
    moreover note Cons.IH [OF Cons.prems(1) rest idx _ a b]
    ultimately show ?thesis by simp
  next
    case False
    then have nlt: "\<not> num_lt (ds ! idx) (ds ! best)"
      using Cons.prems(3) by (simp add: lessThanAt_def d)
    have a: "\<forall>j<Suc idx. \<not> num_lt (ds ! j) (ds ! best)"
      using Cons.prems(5) nlt by (auto simp: less_Suc_eq)
    have "reduceNearest ds best idx (d # rest) = reduceNearest ds best (Suc idx) rest"
      using False by simp
    moreover have "best \<le> Suc idx" using Cons.prems(4) by simp
    note Cons.IH [OF Cons.prems(1) rest Cons.prems(3) this a Cons.prems(6)]
    ultimately show ?thesis by simp
  qed
qed

lemma reduceNearest_bound:
  "best < length ds \<Longrightarrow> idx + length rest \<le> length ds \<Longrightarrow> reduceNearest ds best idx rest < length ds"
  by (induction rest arbitrary: best idx) auto

lemma nearestIndexOf_bound: "ds \<noteq> [] \<Longrightarrow> nearestIndexOf ds < length ds"
  by (simp add: nearestIndexOf_def reduceNearest_bound)

lemma nearestIndexOf_argmin:
  assumes "\<forall>d \<in> set ds. d \<noteq> NaN" and "ds \<noteq> []"
  shows "nearestIndexOf ds < length ds"
    and "\<forall>j<length ds. num_le (ds ! nearestIndexOf ds) (ds ! j)"
    and "\<forall>j<nearestIndexOf ds. num_lt (ds ! nearestIndexOf ds) (ds ! j)"
proof -
  have inv: "reduceNearest ds 0 0 ds < length ds \<and>
         (\<forall>j<length ds. \<not> num_lt (ds ! j) (ds ! reduceNearest ds 0 0 ds)) \<and>
         (\<forall>j<reduceNearest ds 0 0 ds. num_lt (ds ! reduceNearest ds 0 0 ds) (ds ! j))"
    using assms by (intro reduceNearest_inv) simp_all
  then show "nearestIndexOf ds < length ds"
    and "\<forall>j<nearestIndexOf ds. num_lt (ds ! nearestIndexOf ds) (ds ! j)"
    by (simp_all add: nearestIndexOf_def)
  show "\<forall>j<length ds. num_le (ds ! nearestIndexOf ds) (ds ! j)"
    using inv assms(1) by (simp add: nearestIndexOf_def num_le_iff_not_lt)
qed

lemma nearestIndexOf_single [simp]: "nearestIndexOf [d] = 0"
  by (simp add: nearestIndexOf_def lessThanAt_def)

lemma isAtStopOf_iff:
  "ds \<noteq> [] \<Longrightarrow> isAtStopOf ds = num_le (ds ! nearestIndexOf ds) (Finite 140)"
  by (simp add: isAtStopOf_def nearestIndexOf_bound ARRIVAL_DISTANCE_THRESHOLD_def)

section \<open>Properties of the great-circle distance\<close>

text \<open>
  The argument of the square roots stays between 0 and 1, so the real square root agrees
  with \<open>Math.sqrt\<close> there, and the distance is never NaN.
\<close>

lemma sin_half_sq: "(sin (x / 2))\<^sup>2 = (1 - cos x) / 2" for x :: real
  using cos_double_sin [of "x / 2"] by simp

lemma cos_half_sq: "(cos (x / 2))\<^sup>2 = (1 + cos x) / 2" for x :: real
  using cos_double_cos [of "x / 2"] by simp

lemma toRad_diff: "toRad (x - y) = toRad x - toRad y"
  by (simp add: toRad_def diff_divide_distrib left_diff_distrib)

lemma haversine_a_convex:
  "haversine_a lat1 lon1 lat2 lon2 =
     (1 - (sin (toRad (lon2 - lon1) / 2))\<^sup>2) * (sin (toRad (lat2 - lat1) / 2))\<^sup>2
     + (sin (toRad (lon2 - lon1) / 2))\<^sup>2 * (cos ((toRad lat1 + toRad lat2) / 2))\<^sup>2"
proof -
  have "(sin (toRad (lat2 - lat1) / 2))\<^sup>2 + cos (toRad lat1) * cos (toRad lat2)
        = (cos ((toRad lat1 + toRad lat2) / 2))\<^sup>2"
    by (simp add: sin_half_sq cos_half_sq toRad_diff cos_diff cos_add field_simps)
  then have "cos (toRad lat1) * cos (toRad lat2)
        = (cos ((toRad lat1 + toRad lat2) / 2))\<^sup>2 - (sin (toRad (lat2 - lat1) / 2))\<^sup>2"
    by simp
  then have "haversine_a lat1 lon1 lat2 lon2 =
      (sin (toRad (lat2 - lat1) / 2))\<^sup>2 +
      ((cos ((toRad lat1 + toRad lat2) / 2))\<^sup>2 - (sin (toRad (lat2 - lat1) / 2))\<^sup>2)
        * (sin (toRad (lon2 - lon1) / 2))\<^sup>2"
    by (simp add: haversine_a_def Let_def)
  then show ?thesis
    by (simp add: algebra_simps)
qed

lemma haversine_a_range:
  "0 \<le> haversine_a lat1 lon1 lat2 lon2" "haversine_a lat1 lon1 lat2 lon2 \<le> 1"
proof -
  define s where "s = (sin (toRad (lon2 - lon1) / 2))\<^sup>2"
  define A where "A = (sin (toRad (lat2 - lat1) / 2))\<^sup>2"
  define B where "B = (cos ((toRad lat1 + toRad lat2) / 2))\<^sup>2"
  have s: "0 \<le> s" "s \<le> 1" and A: "0 \<le> A" "A \<le> 1" and B: "0 \<le> B" "B \<le> 1"
    by (simp_all add: s_def A_def B_def abs_square_le_1)
  have eq: "haversine_a lat1 lon1 lat2 lon2 = (1 - s) * A + s * B"
    by (simp add: haversine_a_convex s_def A_def B_def)
  show "0 \<le> haversine_a lat1 lon1 lat2 lon2"
    using s A B by (simp add: eq)
  have "(1 - s) * A \<le> (1 - s) * 1" "s * B \<le> s * 1"
    using s A B by (intro mult_left_mono; simp)+
  then show "haversine_a lat1 lon1 lat2 lon2 \<le> 1"
    by (simp add: eq)
qed

text \<open>Without rounding the distance is a finite number whenever the coordinates are.\<close>

lemma haversineDistance_exact:
  assumes "latitude a = Finite lat1" "longitude a = Finite lon1"
    and "latitude b = Finite lat2" "longitude b = Finite lon2"
  shows "haversineDistance exactA a b =
           Finite (EARTH_RADIUS * (2 * atan2 (sqrt (haversine_a lat1 lon1 lat2 lon2))
                                         (sqrt (1 - haversine_a lat1 lon1 lat2 lon2))))"
  using assms haversine_a_range [of lat1 lon1 lat2 lon2]
  by (simp add: haversineDistance_def exactA_def)

lemma haversineDistance_exact_not_NaN: "haversineDistance exactA a b \<noteq> NaN"
proof (cases "\<exists>lat1 lon1 lat2 lon2. latitude a = Finite lat1 \<and> longitude a = Finite lon1 \<and>
                latitude b = Finite lat2 \<and> longitude b = Finite lon2")
  case True
  then show ?thesis using haversineDistance_exact by fastforce
next
  case False
  then have "haversineDistance exactA a b = PosInfinity"
    by (auto simp: haversineDistance_def split: number.splits)
  then show ?thesis by simp
qed

text \<open>The distance depends on the arithmetic at the two points only.\<close>

lemma haversineDistance_arith_cong:
  assumes "latitude a = Finite lat1" "longitude a = Finite lon1"
    and "latitude b = Finite lat2" "longitude b = Finite lon2"
    and "arith lat1 lon1 lat2 lon2 = arith' lat1 lon1 lat2 lon2"
  shows "haversineDistance arith a b = haversineDistance arith' a b"
  using assms by (simp add: haversineDistance_def)

text \<open>
  Along a meridian the exact distance is the arc of the difference of the latitudes. This
  gives inputs at an exact distance: a point \<open>m\<close> metres north of another.
\<close>

lemma atan2_abs_sin_cos:
  assumes "\<bar>x\<bar> < pi / 2"
  shows "atan2 \<bar>sin x\<bar> \<bar>cos x\<bar> = \<bar>x\<bar>"
proof -
  have c: "0 < cos x" using assms by (intro cos_gt_zero_pi) auto
  have c': "0 < cos \<bar>x\<bar>" using c by simp
  have "\<bar>sin x\<bar> = sin \<bar>x\<bar>"
  proof (cases "0 \<le> x")
    case True
    then have "0 \<le> sin x" using assms pi_gt_zero by (intro sin_ge_zero) auto
    with True show ?thesis by simp
  next
    case False
    then have "0 \<le> sin (- x)" using assms pi_gt_zero by (intro sin_ge_zero) auto
    with False show ?thesis by simp
  qed
  then have "\<bar>sin x\<bar> / \<bar>cos x\<bar> = tan \<bar>x\<bar>"
    using c by (simp add: tan_def)
  moreover have "arctan (tan \<bar>x\<bar>) = \<bar>x\<bar>"
    using assms by (intro arctan_tan) auto
  ultimately show ?thesis using c by (simp add: atan2_def)
qed

lemma haversine_on_meridian:
  assumes "latitude a = Finite lat1" "longitude a = Finite lon"
    and "latitude b = Finite lat2" "longitude b = Finite lon"
    and "\<bar>lat2 - lat1\<bar> < 180"
  shows "haversineDistance exactA a b = Finite (EARTH_RADIUS * toRad \<bar>lat2 - lat1\<bar>)"
proof -
  define x where "x = toRad (lat2 - lat1) / 2"
  have x: "\<bar>x\<bar> < pi / 2"
  proof -
    have "\<bar>x\<bar> = \<bar>lat2 - lat1\<bar> * pi / 360" by (simp add: x_def toRad_def abs_mult)
    also have "\<dots> < 180 * pi / 360" using assms(5) by simp
    finally show ?thesis by simp
  qed
  have a: "haversine_a lat1 lon lat2 lon = (sin x)\<^sup>2"
    by (simp add: haversine_a_def x_def toRad_def)
  have "sqrt (1 - (sin x)\<^sup>2) = \<bar>cos x\<bar>"
    by (simp add: cos_squared_eq [symmetric])
  then have "2 * atan2 (sqrt (haversine_a lat1 lon lat2 lon))
                   (sqrt (1 - haversine_a lat1 lon lat2 lon)) = 2 * \<bar>x\<bar>"
    using atan2_abs_sin_cos [OF x] by (simp add: a)
  also have "\<dots> = toRad \<bar>lat2 - lat1\<bar>"
    by (simp add: x_def toRad_def abs_mult)
  finally show ?thesis
    by (simp add: haversineDistance_exact [OF assms(1-4)])
qed

lemma haversine_north:
  assumes "0 \<le> m" "m < 6371000"
    and "latitude a = Finite lat" "longitude a = Finite lon"
    and "latitude b = Finite (lat + m * 180 / (6371000 * pi))" "longitude b = Finite lon"
  shows "haversineDistance exactA a b = Finite m"
proof -
  have "m * 180 / (6371000 * pi) < 180"
  proof -
    have "(6371000::real) \<le> 6371000 * pi" using pi_ge_two by simp
    with assms(2) have "m < 6371000 * pi" by simp
    then have "m * 180 < 180 * (6371000 * pi)" by simp
    then show ?thesis using pi_gt_zero by (simp add: pos_divide_less_eq)
  qed
  moreover have "0 \<le> m * 180 / (6371000 * pi)" using assms(1) by simp
  ultimately have "\<bar>lat + m * 180 / (6371000 * pi) - lat\<bar> < 180" by simp
  from haversine_on_meridian [OF assms(3,4,5,6) this]
  show ?thesis using assms(1) by (simp add: EARTH_RADIUS_def toRad_def)
qed

lemma haversine_north_of_origin:
  assumes "0 \<le> m" "m < 6371000"
    and "latitude a = Finite 0" "longitude a = Finite 0"
    and "latitude b = Finite (m * 180 / (6371000 * pi))" "longitude b = Finite 0"
  shows "haversineDistance exactA a b = Finite m"
  using haversine_north [OF assms(1,2,3,4), of b] assms(5,6) by simp

section \<open>Properties of the route progress\<close>

text \<open>
  With tracking active and a location, the result of \<open>routeProgress\<close> in terms of the
  distances, the nearest index and the arrival test.
\<close>

lemma enrich_simps [simp]:
  "distanceMeters (enrich arith (Some loc) s) = Some (haversineDistance arith loc s)"
  "distanceMeters (enrich arith None s) = None"
  "time (enrich arith b s) = time s"
  by (simp_all add: enrich_def route_stop.defs enriched_stop.defs)

lemma distanceOrInfinity_enrich:
  "distanceOrInfinity \<circ> enrich arith (Some loc) = haversineDistance arith loc"
  by (simp add: fun_eq_iff distanceOrInfinity_def)

lemma enrich_distances:
  "map distanceOrInfinity (map (enrich arith (Some loc)) routeStops) =
   map (haversineDistance arith loc) routeStops"
  by (simp add: distanceOrInfinity_enrich)

lemma decorate_simps [simp]:
  "status (decorate s st l) = st"
  "etaLabel (decorate s st l) = l"
  "distanceMeters (decorate s st l) = distanceMeters s"
  by (simp_all add: decorate_def enriched_stop.defs decorated_stop.defs)

lemma status_decorateTracked:
  "status (decorateTracked v atS n nx lc (i, s)) =
     (if atS \<and> int i = n then Current
      else if int i = nx then Next
      else if int i \<le> lc then Completed else Upcoming)"
  by (simp add: decorateTracked_def Let_def)

lemma etaLabel_decorateTracked_Next:
  "status (decorateTracked v atS n nx lc (i, s)) = Next \<Longrightarrow>
   etaLabel (decorateTracked v atS n nx lc (i, s)) =
     (case distanceMeters s of Some d \<Rightarrow> etaForDistance v d | None \<Rightarrow> [])"
  by (simp add: decorateTracked_def Let_def split: if_splits)

lemma stops_routeProgress_tracked:
  assumes "routeStops \<noteq> []"
  shows "stops (routeProgress arith routeStops (Some loc) True v) =
     (let ds = map (haversineDistance arith loc) routeStops;
          n = int (nearestIndexOf ds);
          atS = isAtStopOf ds;
          nx0 = (if atS then n + 1 else n);
          nx = (if nx0 \<ge> int (length routeStops) then - 1 else nx0)
      in map (decorateTracked v atS n nx (max (n - 1) (- 1)))
           (enumerate 0 (map (enrich arith (Some loc)) routeStops)))"
  using assms by (simp add: routeProgress_def Let_def distanceOrInfinity_enrich)

lemma indices_routeProgress_tracked:
  assumes "routeStops \<noteq> []"
  shows "currentIndex (routeProgress arith routeStops (Some loc) True v) =
           (if isAtStopOf (map (haversineDistance arith loc) routeStops)
            then int (nearestIndexOf (map (haversineDistance arith loc) routeStops)) else - 1)"
    and "nextIndex (routeProgress arith routeStops (Some loc) True v) =
           (let n = int (nearestIndexOf (map (haversineDistance arith loc) routeStops));
                nx0 = (if isAtStopOf (map (haversineDistance arith loc) routeStops) then n + 1 else n)
            in if nx0 \<ge> int (length routeStops) then - 1 else nx0)"
  using assms by (simp_all add: routeProgress_def Let_def distanceOrInfinity_enrich)

lemma length_stops_routeProgress:
  "length (stops (routeProgress arith routeStops loc tracking v)) = length routeStops"
  by (simp add: routeProgress_def Let_def)

lemma status_routeProgress_tracked:
  assumes "i < length routeStops"
  shows "status (stops (routeProgress arith routeStops (Some loc) True v) ! i) =
     (let ds = map (haversineDistance arith loc) routeStops;
          n = nearestIndexOf ds;
          atS = isAtStopOf ds
      in if atS \<and> i = n then Current
         else if (if atS then i = n + 1 else i = n) then Next
         else if i < n then Completed else Upcoming)"
proof -
  from assms have ne: "routeStops \<noteq> []" by auto
  show ?thesis
    using assms
    by (auto simp add: stops_routeProgress_tracked [OF ne] Let_def nth_enumerate_eq
        status_decorateTracked)
qed

text \<open>
  Claim C1. For every ordered list of route stops and every location sample with tracking
  active, the statuses that \<open>routeProgress\<close> derives have at most one stop \<open>current\<close>, at
  most one stop \<open>next\<close>, and the \<open>completed\<close> stops form a prefix of the list: every
  completed stop has an index strictly below that of every stop that is not completed.
  This holds whatever the arithmetic computes.
\<close>

theorem stop_status_invariant:
  "let rp = stops (routeProgress arith routeStops (Some loc) True busSpeed) in
     (\<forall>i j. i < length rp \<and> j < length rp \<and> status (rp ! i) = Current \<and> status (rp ! j) = Current
        \<longrightarrow> i = j) \<and>
     (\<forall>i j. i < length rp \<and> j < length rp \<and> status (rp ! i) = Next \<and> status (rp ! j) = Next
        \<longrightarrow> i = j) \<and>
     (\<forall>i j. i < length rp \<and> j < length rp \<and> status (rp ! i) = Completed \<and>
        status (rp ! j) \<noteq> Completed \<longrightarrow> i < j) \<and>
     (\<exists>k. \<forall>i<length rp. status (rp ! i) = Completed \<longleftrightarrow> i < k)"
proof -
  have "\<exists>k. \<forall>i<length routeStops.
          status (stops (routeProgress arith routeStops (Some loc) True busSpeed) ! i) = Completed
          \<longleftrightarrow> i < k"
    by (rule exI [of _ "nearestIndexOf (map (haversineDistance arith loc) routeStops)"])
       (simp add: status_routeProgress_tracked Let_def)
  moreover have
    "\<forall>i j. i < length routeStops \<and> j < length routeStops \<and>
       status (stops (routeProgress arith routeStops (Some loc) True busSpeed) ! i) = Current \<and>
       status (stops (routeProgress arith routeStops (Some loc) True busSpeed) ! j) = Current
       \<longrightarrow> i = j"
    "\<forall>i j. i < length routeStops \<and> j < length routeStops \<and>
       status (stops (routeProgress arith routeStops (Some loc) True busSpeed) ! i) = Next \<and>
       status (stops (routeProgress arith routeStops (Some loc) True busSpeed) ! j) = Next
       \<longrightarrow> i = j"
    "\<forall>i j. i < length routeStops \<and> j < length routeStops \<and>
       status (stops (routeProgress arith routeStops (Some loc) True busSpeed) ! i) = Completed \<and>
       status (stops (routeProgress arith routeStops (Some loc) True busSpeed) ! j) \<noteq> Completed
       \<longrightarrow> i < j"
    by (intro allI impI; elim conjE;
        simp add: status_routeProgress_tracked Let_def split: if_splits)+
  ultimately show ?thesis
    unfolding Let_def length_stops_routeProgress by blast
qed

text \<open>
  When no distance is NaN the distances are comparable, and the loop selects the lowest
  index of a least distance; the stops below it are the completed ones, and it is the
  current or the next index.
\<close>

lemma nearest_stop_when_comparable:
  assumes "routeStops \<noteq> []"
    and "\<forall>s \<in> set routeStops. haversineDistance arith loc s \<noteq> NaN"
  shows "let ds = map distanceOrInfinity (map (enrich arith (Some loc)) routeStops);
             n = nearestIndexOf ds;
             rp = routeProgress arith routeStops (Some loc) True busSpeed
         in ds = map (haversineDistance arith loc) routeStops \<and>
            n < length routeStops \<and>
            (\<forall>j<length routeStops. num_le (ds ! n) (ds ! j)) \<and>
            (\<forall>j<length routeStops. ds ! j = ds ! n \<longrightarrow> n \<le> j) \<and>
            (\<forall>j<length routeStops. status (stops rp ! j) = Completed \<longleftrightarrow> j < n) \<and>
            (currentIndex rp = int n \<or> nextIndex rp = int n)"
proof -
  define ds where "ds = map (haversineDistance arith loc) routeStops"
  define n where "n = nearestIndexOf ds"
  have ne: "ds \<noteq> []" using assms(1) by (simp add: ds_def)
  have nn: "\<forall>d \<in> set ds. d \<noteq> NaN"
    using assms(2) by (auto simp: ds_def)
  note am = nearestIndexOf_argmin [OF nn ne]
  have n: "n < length routeStops" using am(1) by (simp add: n_def ds_def)
  have le: "\<forall>j<length routeStops. num_le (ds ! n) (ds ! j)"
    using am(2) by (simp add: n_def ds_def)
  have tie: "\<forall>j<length routeStops. ds ! j = ds ! n \<longrightarrow> n \<le> j"
  proof (intro allI impI)
    fix j assume "j < length routeStops" and eq: "ds ! j = ds ! n"
    show "n \<le> j"
    proof (rule ccontr)
      assume "\<not> n \<le> j"
      then have "num_lt (ds ! n) (ds ! j)" using am(3) by (simp add: n_def)
      with eq show False by simp
    qed
  qed
  have compl: "\<forall>j<length routeStops.
      status (stops (routeProgress arith routeStops (Some loc) True busSpeed) ! j) = Completed
      \<longleftrightarrow> j < n"
    by (simp add: status_routeProgress_tracked Let_def ds_def [symmetric] n_def [symmetric])
  have idx: "currentIndex (routeProgress arith routeStops (Some loc) True busSpeed) = int n \<or>
             nextIndex (routeProgress arith routeStops (Some loc) True busSpeed) = int n"
    using indices_routeProgress_tracked [OF assms(1), of arith loc busSpeed] n
    by (simp add: Let_def ds_def [symmetric] n_def [symmetric])
  show ?thesis
    unfolding Let_def enrich_distances ds_def [symmetric] n_def [symmetric]
    using n le tie compl idx by simp
qed

text \<open>
  Then the bus is at a stop exactly when the least distance is at most 140 metres, and the
  stop at that distance with the lowest index is the current one.
\<close>

lemma arrival_threshold_when_comparable:
  assumes "routeStops \<noteq> []"
    and "\<forall>s \<in> set routeStops. haversineDistance arith loc s \<noteq> NaN"
  shows "let ds = map (haversineDistance arith loc) routeStops;
             n = nearestIndexOf ds;
             rp = routeProgress arith routeStops (Some loc) True busSpeed
         in n < length routeStops \<and>
            (\<forall>j<length routeStops. num_le (ds ! n) (ds ! j)) \<and>
            (currentIndex rp = (if num_le (ds ! n) (Finite 140) then int n else - 1)) \<and>
            (status (stops rp ! n) = Current \<longleftrightarrow> num_le (ds ! n) (Finite 140)) \<and>
            (ds ! n = Finite 140 \<longrightarrow> currentIndex rp = int n \<and> status (stops rp ! n) = Current) \<and>
            (ds ! n = Finite 141 \<longrightarrow> currentIndex rp = - 1 \<and> status (stops rp ! n) \<noteq> Current)"
proof -
  define ds where "ds = map (haversineDistance arith loc) routeStops"
  define n where "n = nearestIndexOf ds"
  have ne: "ds \<noteq> []" using assms(1) by (simp add: ds_def)
  have nn: "\<forall>d \<in> set ds. d \<noteq> NaN"
    using assms(2) by (auto simp: ds_def)
  note am = nearestIndexOf_argmin [OF nn ne]
  have n: "n < length routeStops"
    using am(1) by (simp add: n_def ds_def)
  have le: "\<forall>j<length routeStops. num_le (ds ! n) (ds ! j)"
    using am(2) by (simp add: n_def ds_def)
  have at: "isAtStopOf ds = num_le (ds ! n) (Finite 140)"
    using isAtStopOf_iff [OF ne] by (simp add: n_def)
  have cur: "currentIndex (routeProgress arith routeStops (Some loc) True busSpeed) =
        (if num_le (ds ! n) (Finite 140) then int n else - 1)"
    using indices_routeProgress_tracked(1) [OF assms(1), of arith loc busSpeed] at
    by (simp add: ds_def n_def)
  have st: "status (stops (routeProgress arith routeStops (Some loc) True busSpeed) ! n) = Current
        \<longleftrightarrow> num_le (ds ! n) (Finite 140)"
    using status_routeProgress_tracked [OF n, of arith loc busSpeed] at
    by (simp add: Let_def ds_def [symmetric] n_def [symmetric])
  show ?thesis
    unfolding Let_def ds_def [symmetric] n_def [symmetric]
    using n le cur st by simp
qed

text \<open>
  In exact arithmetic: of two stops 300 m and 140 m north of the bus, the second is the
  nearest and is \<open>current\<close>; with the second at 141 m no stop is.
\<close>

lemma arrival_threshold_examples:
  "(let routeStops = [\<lparr>latitude = Finite (300 * 180 / (6371000 * pi)), longitude = Finite 0,
                        stop_id = ''S1'', name = ''S1'', time = None\<rparr>,
                      \<lparr>latitude = Finite (140 * 180 / (6371000 * pi)), longitude = Finite 0,
                        stop_id = ''S2'', name = ''S2'', time = None\<rparr>];
        loc = \<lparr>latitude = Finite 0, longitude = Finite 0, speed = 0, heading = 0, updatedAt = Null\<rparr>;
        rp = routeProgress exactA routeStops (Some loc) True 0
    in map (haversineDistance exactA loc) routeStops = [Finite 300, Finite 140] \<and>
       currentIndex rp = 1 \<and> status (stops rp ! 1) = Current) \<and>
   (let routeStops = [\<lparr>latitude = Finite (300 * 180 / (6371000 * pi)), longitude = Finite 0,
                        stop_id = ''S1'', name = ''S1'', time = None\<rparr>,
                      \<lparr>latitude = Finite (141 * 180 / (6371000 * pi)), longitude = Finite 0,
                        stop_id = ''S2'', name = ''S2'', time = None\<rparr>];
        loc = \<lparr>latitude = Finite 0, longitude = Finite 0, speed = 0, heading = 0, updatedAt = Null\<rparr>;
        rp = routeProgress exactA routeStops (Some loc) True 0
    in map (haversineDistance exactA loc) routeStops = [Finite 300, Finite 141] \<and>
       currentIndex rp = - 1 \<and> status (stops rp ! 1) \<noteq> Current)"
proof -
  define loc :: bus_location where
    "loc = \<lparr>latitude = Finite 0, longitude = Finite 0, speed = 0, heading = 0, updatedAt = Null\<rparr>"
  define s300 :: route_stop where
    "s300 = \<lparr>latitude = Finite (300 * 180 / (6371000 * pi)), longitude = Finite 0,
             stop_id = ''S1'', name = ''S1'', time = None\<rparr>"
  define s140 :: route_stop where
    "s140 = \<lparr>latitude = Finite (140 * 180 / (6371000 * pi)), longitude = Finite 0,
             stop_id = ''S2'', name = ''S2'', time = None\<rparr>"
  define s141 :: route_stop where
    "s141 = \<lparr>latitude = Finite (141 * 180 / (6371000 * pi)), longitude = Finite 0,
             stop_id = ''S2'', name = ''S2'', time = None\<rparr>"
  have d300: "haversineDistance exactA loc s300 = Finite 300"
    by (rule haversine_north_of_origin) (simp_all add: loc_def s300_def)
  have d140: "haversineDistance exactA loc s140 = Finite 140"
    by (rule haversine_north_of_origin) (simp_all add: loc_def s140_def)
  have d141: "haversineDistance exactA loc s141 = Finite 141"
    by (rule haversine_north_of_origin) (simp_all add: loc_def s141_def)
  have n0: "nearestIndexOf [Finite 300, Finite 140] = 1"
    and n1: "nearestIndexOf [Finite 300, Finite 141] = 1"
    by (simp_all add: nearestIndexOf_def lessThanAt_def)
  have ne: "[s300, s140] \<noteq> []" "[s300, s141] \<noteq> []" by simp_all
  have nn: "\<forall>s \<in> set [s300, s140]. haversineDistance exactA loc s \<noteq> NaN"
    "\<forall>s \<in> set [s300, s141]. haversineDistance exactA loc s \<noteq> NaN"
    by (simp_all add: haversineDistance_exact_not_NaN)
  have a: "currentIndex (routeProgress exactA [s300, s140] (Some loc) True 0) = 1 \<and>
           status (stops (routeProgress exactA [s300, s140] (Some loc) True 0) ! 1) = Current"
    using arrival_threshold_when_comparable [OF ne(1) nn(1), of 0]
    by (simp add: Let_def d300 d140 n0)
  have b: "currentIndex (routeProgress exactA [s300, s141] (Some loc) True 0) = - 1 \<and>
           status (stops (routeProgress exactA [s300, s141] (Some loc) True 0) ! 1) \<noteq> Current"
    using arrival_threshold_when_comparable [OF ne(2) nn(2), of 0]
    by (simp add: Let_def d300 d141 n1)
  show ?thesis
    unfolding Let_def loc_def [symmetric] s300_def [symmetric] s140_def [symmetric]
      s141_def [symmetric]
    using a b d300 d140 d141 by simp
qed

text \<open>
  The failing input of C3 and C4, with the arithmetic of doubles: the bus at (0.08, 0), the
  first stop at the antipodal point (-0.08, 180), the second stop 11 m north of the bus.
  The distance of the first stop is NaN and that of the second is 11 m.
\<close>

lemma antipodal_distances:
  "map (haversineDistance doubleA
          \<lparr>latitude = Finite 0.08, longitude = Finite 0, speed = 0, heading = 0, updatedAt = Null\<rparr>)
     [\<lparr>latitude = Finite (- 0.08), longitude = Finite 180, stop_id = ''S1'', name = ''S1'',
        time = None\<rparr>,
      \<lparr>latitude = Finite (0.08 + 11 * 180 / (6371000 * pi)), longitude = Finite 0,
        stop_id = ''S2'', name = ''S2'', time = None\<rparr>]
   = [NaN, Finite 11]"
proof -
  define bus :: bus_location where
    "bus = \<lparr>latitude = Finite 0.08, longitude = Finite 0, speed = 0, heading = 0, updatedAt = Null\<rparr>"
  define s1 :: route_stop where
    "s1 = \<lparr>latitude = Finite (- 0.08), longitude = Finite 180, stop_id = ''S1'', name = ''S1'',
           time = None\<rparr>"
  define s2 :: route_stop where
    "s2 = \<lparr>latitude = Finite (0.08 + 11 * 180 / (6371000 * pi)), longitude = Finite 0,
           stop_id = ''S2'', name = ''S2'', time = None\<rparr>"
  have d1: "haversineDistance doubleA bus s1 = NaN"
    by (simp add: haversineDistance_def doubleA_def bus_def s1_def)
  have "haversineDistance doubleA bus s2 = haversineDistance exactA bus s2"
    by (rule haversineDistance_arith_cong
          [where ?lat1.0 = "0.08" and ?lon1.0 = 0
             and ?lat2.0 = "0.08 + 11 * 180 / (6371000 * pi)" and ?lon2.0 = 0])
       (simp_all add: bus_def s2_def doubleA_def)
  also have "\<dots> = Finite 11"
    by (rule haversine_north [where lat = "0.08" and lon = 0]) (simp_all add: bus_def s2_def)
  finally have d2: "haversineDistance doubleA bus s2 = Finite 11" .
  show ?thesis
    unfolding bus_def [symmetric] s1_def [symmetric] s2_def [symmetric]
    by (simp add: d1 d2)
qed

lemma nearestIndexOf_NaN_first: "nearestIndexOf [NaN, Finite 11] = 0"
  by (simp add: nearestIndexOf_def lessThanAt_def)

text \<open>
  Claim C3, at the input where the code departs from it. The claim has the bus at a stop
  exactly when the distance of the nearest stop is at most 140 m. Here the nearest stop is
  11 m away, but the NaN distance of the first stop is never replaced by the loop, the
  arrival test on NaN fails, no stop is \<open>current\<close> and the stop 11 m away is \<open>upcoming\<close>.
\<close>

theorem arrival_missed_beside_NaN_distance:
  "haversineDistance doubleA
     \<lparr>latitude = Finite 0.08, longitude = Finite 0, speed = 0, heading = 0, updatedAt = Null\<rparr>
     \<lparr>latitude = Finite (0.08 + 11 * 180 / (6371000 * pi)), longitude = Finite 0,
       stop_id = ''S2'', name = ''S2'', time = None\<rparr> = Finite 11 \<and>
   num_le (Finite 11) (Finite 140) \<and>
   \<not> isAtStopOf
       (map (haversineDistance doubleA
               \<lparr>latitude = Finite 0.08, longitude = Finite 0, speed = 0, heading = 0,
                 updatedAt = Null\<rparr>)
          [\<lparr>latitude = Finite (- 0.08), longitude = Finite 180, stop_id = ''S1'', name = ''S1'',
             time = None\<rparr>,
           \<lparr>latitude = Finite (0.08 + 11 * 180 / (6371000 * pi)), longitude = Finite 0,
             stop_id = ''S2'', name = ''S2'', time = None\<rparr>]) \<and>
   currentIndex (routeProgress doubleA
       [\<lparr>latitude = Finite (- 0.08), longitude = Finite 180, stop_id = ''S1'', name = ''S1'',
          time = None\<rparr>,
        \<lparr>latitude = Finite (0.08 + 11 * 180 / (6371000 * pi)), longitude = Finite 0,
          stop_id = ''S2'', name = ''S2'', time = None\<rparr>]
       (Some \<lparr>latitude = Finite 0.08, longitude = Finite 0, speed = 0, heading = 0,
               updatedAt = Null\<rparr>) True 0) = - 1 \<and>
   status (stops (routeProgress doubleA
       [\<lparr>latitude = Finite (- 0.08), longitude = Finite 180, stop_id = ''S1'', name = ''S1'',
          time = None\<rparr>,
        \<lparr>latitude = Finite (0.08 + 11 * 180 / (6371000 * pi)), longitude = Finite 0,
          stop_id = ''S2'', name = ''S2'', time = None\<rparr>]
       (Some \<lparr>latitude = Finite 0.08, longitude = Finite 0, speed = 0, heading = 0,
               updatedAt = Null\<rparr>) True 0) ! 1) = Upcoming"
proof -
  define bus :: bus_location where
    "bus = \<lparr>latitude = Finite 0.08, longitude = Finite 0, speed = 0, heading = 0, updatedAt = Null\<rparr>"
  define s1 :: route_stop where
    "s1 = \<lparr>latitude = Finite (- 0.08), longitude = Finite 180, stop_id = ''S1'', name = ''S1'',
           time = None\<rparr>"
  define s2 :: route_stop where
    "s2 = \<lparr>latitude = Finite (0.08 + 11 * 180 / (6371000 * pi)), longitude = Finite 0,
           stop_id = ''S2'', name = ''S2'', time = None\<rparr>"
  have ds: "map (haversineDistance doubleA bus) [s1, s2] = [NaN, Finite 11]"
    unfolding bus_def s1_def s2_def by (rule antipodal_distances)
  have ne: "[s1, s2] \<noteq> []" by simp
  have d2: "haversineDistance doubleA bus s2 = Finite 11"
    using ds by simp
  have a: "\<not> isAtStopOf [NaN, Finite 11]"
    by (simp add: isAtStopOf_def nearestIndexOf_NaN_first)
  have c: "currentIndex (routeProgress doubleA [s1, s2] (Some bus) True 0) = - 1"
    using indices_routeProgress_tracked(1) [OF ne, of doubleA bus 0] a by (simp only: ds) simp
  have s: "status (stops (routeProgress doubleA [s1, s2] (Some bus) True 0) ! 1) = Upcoming"
    using status_routeProgress_tracked [of 1 "[s1, s2]" doubleA bus 0] a
    by (simp only: ds Let_def nearestIndexOf_NaN_first) simp
  show ?thesis
    unfolding bus_def [symmetric] s1_def [symmetric] s2_def [symmetric]
    using d2 a c s by (simp only: ds) simp
qed

text \<open>
  Claim C4, at the input where the code departs from it. The claim has \<open>nearestIndex\<close> the
  index of a stop at the least distance. Here the loop returns index 0, whose distance is
  NaN and is not at most the 11 m of the stop at index 1; index 0 is then the next stop.
\<close>

theorem nearest_index_stuck_on_NaN_distance:
  "map distanceOrInfinity
     (map (enrich doubleA
             (Some \<lparr>latitude = Finite 0.08, longitude = Finite 0, speed = 0, heading = 0,
                     updatedAt = Null\<rparr>))
        [\<lparr>latitude = Finite (- 0.08), longitude = Finite 180, stop_id = ''S1'', name = ''S1'',
           time = None\<rparr>,
         \<lparr>latitude = Finite (0.08 + 11 * 180 / (6371000 * pi)), longitude = Finite 0,
           stop_id = ''S2'', name = ''S2'', time = None\<rparr>])
   = [NaN, Finite 11] \<and>
   nearestIndexOf [NaN, Finite 11] = 0 \<and>
   \<not> num_le ([NaN, Finite 11] ! 0) ([NaN, Finite 11] ! 1) \<and>
   num_le ([NaN, Finite 11] ! 1) ([NaN, Finite 11] ! 1) \<and>
   nextIndex (routeProgress doubleA
       [\<lparr>latitude = Finite (- 0.08), longitude = Finite 180, stop_id = ''S1'', name = ''S1'',
          time = None\<rparr>,
        \<lparr>latitude = Finite (0.08 + 11 * 180 / (6371000 * pi)), longitude = Finite 0,
          stop_id = ''S2'', name = ''S2'', time = None\<rparr>]
       (Some \<lparr>latitude = Finite 0.08, longitude = Finite 0, speed = 0, heading = 0,
               updatedAt = Null\<rparr>) True 0) = 0"
proof -
  define bus :: bus_location where
    "bus = \<lparr>latitude = Finite 0.08, longitude = Finite 0, speed = 0, heading = 0, updatedAt = Null\<rparr>"
  define s1 :: route_stop where
    "s1 = \<lparr>latitude = Finite (- 0.08), longitude = Finite 180, stop_id = ''S1'', name = ''S1'',
           time = None\<rparr>"
  define s2 :: route_stop where
    "s2 = \<lparr>latitude = Finite (0.08 + 11 * 180 / (6371000 * pi)), longitude = Finite 0,
           stop_id = ''S2'', name = ''S2'', time = None\<rparr>"
  have ds: "map (haversineDistance doubleA bus) [s1, s2] = [NaN, Finite 11]"
    unfolding bus_def s1_def s2_def by (rule antipodal_distances)
  have ne: "[s1, s2] \<noteq> []" by simp
  have e: "map distanceOrInfinity (map (enrich doubleA (Some bus)) [s1, s2]) = [NaN, Finite 11]"
    by (simp only: enrich_distances ds)
  have a: "\<not> isAtStopOf [NaN, Finite 11]"
    by (simp add: isAtStopOf_def nearestIndexOf_NaN_first)
  have nx: "nextIndex (routeProgress doubleA [s1, s2] (Some bus) True 0) = 0"
    using indices_routeProgress_tracked(2) [OF ne, of doubleA bus 0] a
    by (simp only: ds Let_def nearestIndexOf_NaN_first) simp
  show ?thesis
    unfolding bus_def [symmetric] s1_def [symmetric] s2_def [symmetric]
    using e nx by (simp add: nearestIndexOf_NaN_first)
qed

text \<open>
  Claim C2, as amended. With tracking active and a bus location, the label of the stop
  classified \<open>next\<close> is empty when its distance is not finite; otherwise it is
  "Awaiting movement" when the speed is at most 0.5 m/s, and else, with
  \<open>minutes = max(round(distance / max(speed, 0.1) / 60), 1)\<close>, "Arriving now" when
  \<open>minutes \<le> 1\<close> and "Arriving in \<open>minutes\<close> min" otherwise.
\<close>

theorem next_stop_eta_label:
  assumes "i < length routeStops"
    and "status (stops (routeProgress arith routeStops (Some loc) True busSpeed) ! i) = Next"
  shows "etaLabel (stops (routeProgress arith routeStops (Some loc) True busSpeed) ! i) =
     (case haversineDistance arith loc (routeStops ! i) of
        Finite d \<Rightarrow>
          (if busSpeed \<le> 0.5 then ''Awaiting movement''
           else if max (round (d / max busSpeed 0.1 / 60)) 1 \<le> 1 then ''Arriving now''
           else ''Arriving in '' @ string_of_int (max (round (d / max busSpeed 0.1 / 60)) 1) @ '' min'')
      | _ \<Rightarrow> [])"
proof -
  from assms(1) have ne: "routeStops \<noteq> []" by auto
  show ?thesis
    using assms
    by (simp add: stops_routeProgress_tracked [OF ne] Let_def nth_enumerate_eq
        etaLabel_decorateTracked_Next etaForDistance_def split: number.splits)
qed

lemma example_statuses:
  "map status (stops (routeProgress exactA
     [\<lparr>latitude = Finite 0, longitude = Finite 0, stop_id = ''S1'', name = ''S1'', time = None\<rparr>,
      \<lparr>latitude = Finite (1 / 1000), longitude = Finite 0, stop_id = ''S2'', name = ''S2'', time = None\<rparr>,
      \<lparr>latitude = Finite (1 / 500), longitude = Finite 0, stop_id = ''S3'', name = ''S3'', time = None\<rparr>]
     (Some \<lparr>latitude = Finite (1 / 1000), longitude = Finite 0, speed = 5, heading = 0, updatedAt = Num (Finite 0)\<rparr>)
     True 5)) = [Completed, Current, Next]"
proof -
  define loc :: bus_location where
    "loc = \<lparr>latitude = Finite (1 / 1000), longitude = Finite 0, speed = 5, heading = 0, updatedAt = Num (Finite 0)\<rparr>"
  define ss :: "route_stop list" where
    "ss = [\<lparr>latitude = Finite 0, longitude = Finite 0, stop_id = ''S1'', name = ''S1'', time = None\<rparr>,
      \<lparr>latitude = Finite (1 / 1000), longitude = Finite 0, stop_id = ''S2'', name = ''S2'', time = None\<rparr>,
      \<lparr>latitude = Finite (1 / 500), longitude = Finite 0, stop_id = ''S3'', name = ''S3'', time = None\<rparr>]"
  define r where "r = EARTH_RADIUS * toRad (1 / 1000)"
  have r: "0 < r" by (simp add: r_def EARTH_RADIUS_def toRad_def)
  have len: "length ss = 3" by (simp add: ss_def)
  have ds: "map (haversineDistance exactA loc) ss = [Finite r, Finite 0, Finite r]"
    by (simp add: ss_def loc_def r_def
      haversine_on_meridian [where lon = 0 and ?lat1.0 = "1 / 1000" and ?lat2.0 = 0]
      haversine_on_meridian [where lon = 0 and ?lat1.0 = "1 / 1000" and ?lat2.0 = "1 / 1000"]
      haversine_on_meridian [where lon = 0 and ?lat1.0 = "1 / 1000" and ?lat2.0 = "1 / 500"]
      toRad_def)
  have n: "nearestIndexOf [Finite r, Finite 0, Finite r] = 1"
    using r by (simp add: nearestIndexOf_def lessThanAt_def)
  have a: "isAtStopOf [Finite r, Finite 0, Finite r]"
    by (simp add: isAtStopOf_def n ARRIVAL_DISTANCE_THRESHOLD_def)
  have "status (stops (routeProgress exactA ss (Some loc) True 5) ! i) = [Completed, Current, Next] ! i"
    if "i < 3" for i
  proof -
    from that have "i = 0 \<or> i = 1 \<or> i = 2" by auto
    then show ?thesis
      using status_routeProgress_tracked [of i ss exactA loc 5] that
      by (auto simp add: len ds n a Let_def)
  qed
  then have "map status (stops (routeProgress exactA ss (Some loc) True 5)) = [Completed, Current, Next]"
    by (intro nth_equalityI) (simp_all add: length_stops_routeProgress len)
  then show ?thesis by (simp only: ss_def loc_def)
qed

text \<open>
  Witness of C1: three stops a thousandth of a degree apart on a meridian, the bus at the
  second one.
\<close>

theorem stop_status_invariant_witness:
  "let rp = stops (routeProgress exactA
     [\<lparr>latitude = Finite 0, longitude = Finite 0, stop_id = ''S1'', name = ''S1'', time = None\<rparr>,
      \<lparr>latitude = Finite (1 / 1000), longitude = Finite 0, stop_id = ''S2'', name = ''S2'', time = None\<rparr>,
      \<lparr>latitude = Finite (1 / 500), longitude = Finite 0, stop_id = ''S3'', name = ''S3'', time = None\<rparr>]
     (Some \<lparr>latitude = Finite (1 / 1000), longitude = Finite 0, speed = 5, heading = 0, updatedAt = Num (Finite 0)\<rparr>)
     True 5)
   in map status rp = [Completed, Current, Next] \<and>
      (\<forall>j<length rp. status (rp ! j) = Current \<longrightarrow> j = 1) \<and>
      (\<forall>j<length rp. status (rp ! j) = Next \<longrightarrow> j = 2) \<and>
      (\<forall>j<length rp. status (rp ! j) \<noteq> Completed \<longrightarrow> 0 < j)"
proof -
  define rp where "rp = stops (routeProgress exactA
     [\<lparr>latitude = Finite 0, longitude = Finite 0, stop_id = ''S1'', name = ''S1'', time = None\<rparr>,
      \<lparr>latitude = Finite (1 / 1000), longitude = Finite 0, stop_id = ''S2'', name = ''S2'', time = None\<rparr>,
      \<lparr>latitude = Finite (1 / 500), longitude = Finite 0, stop_id = ''S3'', name = ''S3'', time = None\<rparr>]
     (Some \<lparr>latitude = Finite (1 / 1000), longitude = Finite 0, speed = 5, heading = 0, updatedAt = Num (Finite 0)\<rparr>)
     True 5)"
  have st: "map status rp = [Completed, Current, Next]"
    unfolding rp_def by (rule example_statuses)
  then have len: "length rp = 3"
    by (metis length_map length_Cons list.size(3) numeral_3_eq_3)
  have s0: "status (rp ! 0) = Completed" and s1: "status (rp ! 1) = Current"
    and s2: "status (rp ! 2) = Next"
    using nth_map [of 0 rp status] nth_map [of 1 rp status] nth_map [of 2 rp status]
    by (simp_all add: st len)
  note inv = stop_status_invariant [where routeStops = "[\<lparr>latitude = Finite 0, longitude = Finite 0, stop_id = ''S1'', name = ''S1'', time = None\<rparr>,
      \<lparr>latitude = Finite (1 / 1000), longitude = Finite 0, stop_id = ''S2'', name = ''S2'', time = None\<rparr>,
      \<lparr>latitude = Finite (1 / 500), longitude = Finite 0, stop_id = ''S3'', name = ''S3'', time = None\<rparr>]"
     and loc = "\<lparr>latitude = Finite (1 / 1000), longitude = Finite 0, speed = 5, heading = 0, updatedAt = Num (Finite 0)\<rparr>"
     and busSpeed = 5 and arith = exactA, folded rp_def, unfolded Let_def]
  have c: "\<forall>j<length rp. status (rp ! j) = Current \<longrightarrow> j = 1"
  proof (intro allI impI)
    fix j assume "j < length rp" "status (rp ! j) = Current"
    moreover have "1 < length rp" using len by simp
    ultimately show "j = 1" using inv s1 by blast
  qed
  have n: "\<forall>j<length rp. status (rp ! j) = Next \<longrightarrow> j = 2"
  proof (intro allI impI)
    fix j assume "j < length rp" "status (rp ! j) = Next"
    moreover have "2 < length rp" using len by simp
    ultimately show "j = 2" using inv s2 by blast
  qed
  have p: "\<forall>j<length rp. status (rp ! j) \<noteq> Completed \<longrightarrow> 0 < j"
  proof (intro allI impI)
    fix j assume "j < length rp" "status (rp ! j) \<noteq> Completed"
    moreover have "0 < length rp" using len by simp
    ultimately show "0 < j" using inv s0 by blast
  qed
  show ?thesis
    unfolding Let_def rp_def [symmetric] using st c n p by blast
qed

text \<open>
  Witness of C2 as amended: the bus at the first stop, the next stop 3000 m away, at 5 m/s.
\<close>

theorem next_stop_eta_label_witness:
  "let routeStops =
         [\<lparr>latitude = Finite 0, longitude = Finite 0, stop_id = ''S1'', name = ''S1'', time = None\<rparr>,
          \<lparr>latitude = Finite (3000 * 180 / (6371000 * pi)), longitude = Finite 0,
            stop_id = ''S2'', name = ''S2'', time = None\<rparr>];
       loc = \<lparr>latitude = Finite 0, longitude = Finite 0, speed = 5, heading = 0, updatedAt = Null\<rparr>;
       rp = routeProgress exactA routeStops (Some loc) True 5
   in 1 < length routeStops \<and> status (stops rp ! 1) = Next \<and>
      haversineDistance exactA loc (routeStops ! 1) = Finite 3000 \<and>
      etaLabel (stops rp ! 1) = ''Arriving in 10 min''"
proof -
  define loc :: bus_location where
    "loc = \<lparr>latitude = Finite 0, longitude = Finite 0, speed = 5, heading = 0, updatedAt = Null\<rparr>"
  define ss :: "route_stop list" where
    "ss = [\<lparr>latitude = Finite 0, longitude = Finite 0, stop_id = ''S1'', name = ''S1'', time = None\<rparr>,
          \<lparr>latitude = Finite (3000 * 180 / (6371000 * pi)), longitude = Finite 0,
            stop_id = ''S2'', name = ''S2'', time = None\<rparr>]"
  have len: "length ss = 2" by (simp add: ss_def)
  have "haversineDistance exactA loc (ss ! 0) = Finite 0"
    using haversine_north_of_origin [of 0 loc "ss ! 0"] by (simp add: loc_def ss_def)
  moreover have d1: "haversineDistance exactA loc (ss ! 1) = Finite 3000"
    by (rule haversine_north_of_origin) (simp_all add: loc_def ss_def)
  ultimately have ds: "map (haversineDistance exactA loc) ss = [Finite 0, Finite 3000]"
    by (simp add: ss_def)
  have n: "nearestIndexOf [Finite 0, Finite 3000] = 0"
    by (simp add: nearestIndexOf_def lessThanAt_def)
  have a: "isAtStopOf [Finite 0, Finite 3000]"
    by (simp add: isAtStopOf_def n ARRIVAL_DISTANCE_THRESHOLD_def)
  have st: "status (stops (routeProgress exactA ss (Some loc) True 5) ! 1) = Next"
    using status_routeProgress_tracked [of 1 ss exactA loc 5] by (simp add: len ds n a Let_def)
  have s: "string_of_int 10 = ''10''"
    by code_simp
  note lbl = next_stop_eta_label [of 1 ss exactA loc 5, unfolded d1 number.case]
  have "etaLabel (stops (routeProgress exactA ss (Some loc) True 5) ! 1) = ''Arriving in 10 min''"
    using lbl st len by (simp add: s)
  then show ?thesis
    unfolding Let_def loc_def [symmetric] ss_def [symmetric]
    using st d1 len by simp
qed

text \<open>
  Counterexample to C2 as stated: before any sample arrives nothing is tracked, the first
  stop is classified \<open>next\<close> and the speed is 0, yet its label is "Upcoming stop".
\<close>

theorem next_stop_eta_label_counterexample:
  "status (stops (routeProgress exactA
       [\<lparr>latitude = Finite 0, longitude = Finite 0, stop_id = ''S1'', name = ''S1'', time = None\<rparr>]
       None False (busSpeedOf None)) ! 0) = Next \<and>
   busSpeedOf None \<le> 0.5 \<and>
   etaLabel (stops (routeProgress exactA
       [\<lparr>latitude = Finite 0, longitude = Finite 0, stop_id = ''S1'', name = ''S1'', time = None\<rparr>]
       None False (busSpeedOf None)) ! 0) = ''Upcoming stop'' \<and>
   etaLabel (stops (routeProgress exactA
       [\<lparr>latitude = Finite 0, longitude = Finite 0, stop_id = ''S1'', name = ''S1'', time = None\<rparr>]
       None False (busSpeedOf None)) ! 0) \<noteq> ''Awaiting movement''"
  by (simp add: routeProgress_def busSpeedOf_def decorateIdle_def hasTime_def Let_def)

section \<open>Properties of the bus-location subscribers\<close>

lemma getProp_nonobj [simp]:
  "getProp Null k = Undefined" "getProp Undefined k = Undefined"
  by (simp_all add: getProp_def)

text \<open>
  The MapScreen subscriber clears its state when \<open>isTracking\<close> is falsy, when the
  coordinates are not both finite numbers, and when there is no record.
\<close>

lemma onBusSnapshot_clears:
  assumes "\<not> truthy (getProp snapshot ''isTracking'') \<or>
           \<not> (numberIsFinite (getProp (getProp snapshot ''currentLocation'') ''latitude'') \<and>
              numberIsFinite (getProp (getProp snapshot ''currentLocation'') ''longitude''))"
  shows "onBusSnapshot toNumber now snapshot = \<lparr>busLocation = None, isBusTracking = False\<rparr>"
  using assms by (auto simp: onBusSnapshot_def Let_def js_and_def)

lemma onBusSnapshot_no_record:
  "onBusSnapshot toNumber now Null = \<lparr>busLocation = None, isBusTracking = False\<rparr>"
  "onBusSnapshot toNumber now Undefined = \<lparr>busLocation = None, isBusTracking = False\<rparr>"
  by (simp_all add: onBusSnapshot_clears)

text \<open>
  Claim C5, at the input where the code departs from it. A subscriber that receives no
  record, a record whose \<open>isTracking\<close> is false, or a record without finite coordinates
  should hold no bus location. For a record that is tracking and whose coordinates are null,
  the MapScreen subscriber clears its state, but the BusLiveTrackingScreen subscriber
  stores a location and renders the bus marker as live.
\<close>

theorem live_subscriber_keeps_invalid_coordinates:
  "\<not> numberIsFinite
       (getProp (getProp (Obj [(''isTracking'', Bool True),
                               (''currentLocation'', Obj [(''latitude'', Null), (''longitude'', Null)])])
                   ''currentLocation'') ''latitude'') \<and>
   onBusSnapshot (\<lambda>v. NaN) 0
      (Obj [(''isTracking'', Bool True),
            (''currentLocation'', Obj [(''latitude'', Null), (''longitude'', Null)])])
     = \<lparr>busLocation = None, isBusTracking = False\<rparr> \<and>
   liveBusLocation (onLiveLocation (Str ''Ravi'')
      (Obj [(''isTracking'', Bool True),
            (''currentLocation'', Obj [(''latitude'', Null), (''longitude'', Null)])]))
     = Obj [(''latitude'', Null), (''longitude'', Null), (''timestamp'', Undefined),
            (''driverName'', Str ''Ravi''), (''isTracking'', Bool True), (''speed'', Undefined),
            (''accuracy'', Undefined), (''heading'', Num (Finite 0))] \<and>
   liveMarkerShown (onLiveLocation (Str ''Ravi'')
      (Obj [(''isTracking'', Bool True),
            (''currentLocation'', Obj [(''latitude'', Null), (''longitude'', Null)])]))"
  by (simp add: onLiveLocation_def liveMarkerShown_def onBusSnapshot_def Let_def getProp_def
      js_and_def js_or_def coalesce_def nullish_def numberIsFinite_def)

text \<open>
  The BusLiveTrackingScreen subscriber clears its location when \<open>isTracking\<close> is falsy,
  when there is no record, and when \<open>currentLocation\<close> is missing.
\<close>

lemma onLiveLocation_clears:
  assumes "\<not> truthy (getProp locationData ''isTracking'') \<or> \<not> truthy locationData \<or>
           \<not> truthy (getProp locationData ''currentLocation'')"
  shows "onLiveLocation busDriver locationData = \<lparr>liveBusLocation = Null, loading = False\<rparr>"
  using assms by (auto simp: onLiveLocation_def Let_def js_and_def)

text \<open>
  Counterexample to C10 as stated: \<open>activeTrackingSession\<close> is present and null, hence
  falsy, \<open>trackingSessionId\<close> is missing and \<open>isTracking\<close> is true; the MapScreen subscriber
  stores the location and sets the tracking flag.
\<close>

theorem session_marker_counterexample:
  "map_of [(''isTracking'', Bool True), (''activeTrackingSession'', Null),
           (''currentLocation'', Obj [(''latitude'', Num (Finite 11)), (''longitude'', Num (Finite 77))])]
      ''activeTrackingSession'' = Some Null \<and>
   \<not> truthy Null \<and>
   onBusSnapshot (\<lambda>v. NaN) 0
     (Obj [(''isTracking'', Bool True), (''activeTrackingSession'', Null),
           (''currentLocation'', Obj [(''latitude'', Num (Finite 11)), (''longitude'', Num (Finite 77))])])
   = \<lparr>busLocation = Some \<lparr>latitude = Finite 11, longitude = Finite 77, speed = 0, heading = 0,
                           updatedAt = Num (Finite 0)\<rparr>,
      isBusTracking = True\<rparr>"
  by (simp add: onBusSnapshot_def Let_def getProp_def js_and_def js_or_def coalesce_def nullish_def
      numberIsFinite_def Number_def finiteOrZero_def)

text \<open>
  Claim C10, as amended. The session marker of a snapshot is \<open>activeTrackingSession\<close> unless
  that is null or undefined, and \<open>trackingSessionId\<close> otherwise. When the marker is not
  undefined and is falsy, the MapScreen subscriber treats tracking as inactive and clears the
  bus location, whatever \<open>isTracking\<close> says; so does the BusLiveTrackingScreen subscriber
  unless the marker is null.
\<close>

theorem falsy_session_marker_clears:
  assumes "coalesce (getProp snapshot ''activeTrackingSession'')
             (getProp snapshot ''trackingSessionId'') \<noteq> Undefined"
    and "\<not> truthy (coalesce (getProp snapshot ''activeTrackingSession'')
                     (getProp snapshot ''trackingSessionId''))"
  shows "onBusSnapshot toNumber now snapshot = \<lparr>busLocation = None, isBusTracking = False\<rparr> \<and>
         (coalesce (getProp snapshot ''activeTrackingSession'')
            (getProp snapshot ''trackingSessionId'') \<noteq> Null \<longrightarrow>
          onLiveLocation busDriver snapshot = \<lparr>liveBusLocation = Null, loading = False\<rparr>)"
  using assms
  by (auto simp: onBusSnapshot_def onLiveLocation_def Let_def js_and_def coalesce_def nullish_def)

text \<open>
  Witness of C10 as amended: a tracking record with finite coordinates whose
  \<open>trackingSessionId\<close> is the empty string is cleared by both subscribers. The marker
  decides: the same record with the session id \<open>"s1"\<close> is stored by both.
\<close>

theorem falsy_session_marker_clears_witness:
  "truthy (getProp (Obj [(''isTracking'', Bool True), (''trackingSessionId'', Str []),
                         (''currentLocation'', Obj [(''latitude'', Num (Finite 11)),
                                                    (''longitude'', Num (Finite 77))])])
             ''isTracking'') \<and>
   numberIsFinite (getProp (getProp (Obj [(''isTracking'', Bool True), (''trackingSessionId'', Str []),
                         (''currentLocation'', Obj [(''latitude'', Num (Finite 11)),
                                                    (''longitude'', Num (Finite 77))])])
             ''currentLocation'') ''latitude'') \<and>
   numberIsFinite (getProp (getProp (Obj [(''isTracking'', Bool True), (''trackingSessionId'', Str []),
                         (''currentLocation'', Obj [(''latitude'', Num (Finite 11)),
                                                    (''longitude'', Num (Finite 77))])])
             ''currentLocation'') ''longitude'') \<and>
   coalesce (getProp (Obj [(''isTracking'', Bool True), (''trackingSessionId'', Str []),
                         (''currentLocation'', Obj [(''latitude'', Num (Finite 11)),
                                                    (''longitude'', Num (Finite 77))])])
               ''activeTrackingSession'')
            (getProp (Obj [(''isTracking'', Bool True), (''trackingSessionId'', Str []),
                         (''currentLocation'', Obj [(''latitude'', Num (Finite 11)),
                                                    (''longitude'', Num (Finite 77))])])
               ''trackingSessionId'') = Str [] \<and>
   Str [] \<noteq> Undefined \<and> \<not> truthy (Str []) \<and> Str [] \<noteq> Null \<and>
   onBusSnapshot (\<lambda>v. NaN) 0
     (Obj [(''isTracking'', Bool True), (''trackingSessionId'', Str []),
           (''currentLocation'', Obj [(''latitude'', Num (Finite 11)),
                                      (''longitude'', Num (Finite 77))])])
     = \<lparr>busLocation = None, isBusTracking = False\<rparr> \<and>
   onLiveLocation Null
     (Obj [(''isTracking'', Bool True), (''trackingSessionId'', Str []),
           (''currentLocation'', Obj [(''latitude'', Num (Finite 11)),
                                      (''longitude'', Num (Finite 77))])])
     = \<lparr>liveBusLocation = Null, loading = False\<rparr> \<and>
   onBusSnapshot (\<lambda>v. NaN) 0
     (Obj [(''isTracking'', Bool True), (''trackingSessionId'', Str ''s1''),
           (''currentLocation'', Obj [(''latitude'', Num (Finite 11)),
                                      (''longitude'', Num (Finite 77))])])
     = \<lparr>busLocation = Some \<lparr>latitude = Finite 11, longitude = Finite 77, speed = 0, heading = 0,
                             updatedAt = Num (Finite 0)\<rparr>,
        isBusTracking = True\<rparr> \<and>
   liveMarkerShown (onLiveLocation Null
     (Obj [(''isTracking'', Bool True), (''trackingSessionId'', Str ''s1''),
           (''currentLocation'', Obj [(''latitude'', Num (Finite 11)),
                                      (''longitude'', Num (Finite 77))])]))"
proof -
  define snap where
    "snap = Obj [(''isTracking'', Bool True), (''trackingSessionId'', Str []),
                 (''currentLocation'', Obj [(''latitude'', Num (Finite 11)),
                                            (''longitude'', Num (Finite 77))])]"
  have m: "coalesce (getProp snap ''activeTrackingSession'') (getProp snap ''trackingSessionId'')
           = Str []"
    by (simp add: snap_def getProp_def coalesce_def nullish_def)
  have u: "coalesce (getProp snap ''activeTrackingSession'') (getProp snap ''trackingSessionId'')
           \<noteq> Undefined"
    and f: "\<not> truthy (coalesce (getProp snap ''activeTrackingSession'')
                         (getProp snap ''trackingSessionId''))"
    by (simp_all add: m)
  have c: "truthy (getProp snap ''isTracking'') \<and>
           numberIsFinite (getProp (getProp snap ''currentLocation'') ''latitude'') \<and>
           numberIsFinite (getProp (getProp snap ''currentLocation'') ''longitude'')"
    by (simp add: snap_def getProp_def numberIsFinite_def)
  have cleared: "onBusSnapshot (\<lambda>v. NaN) 0 snap = \<lparr>busLocation = None, isBusTracking = False\<rparr> \<and>
                 onLiveLocation Null snap = \<lparr>liveBusLocation = Null, loading = False\<rparr>"
    using falsy_session_marker_clears [OF u f, of "\<lambda>v. NaN" 0 Null] m by simp
  have stored: "onBusSnapshot (\<lambda>v. NaN) 0
     (Obj [(''isTracking'', Bool True), (''trackingSessionId'', Str ''s1''),
           (''currentLocation'', Obj [(''latitude'', Num (Finite 11)),
                                      (''longitude'', Num (Finite 77))])])
     = \<lparr>busLocation = Some \<lparr>latitude = Finite 11, longitude = Finite 77, speed = 0, heading = 0,
                             updatedAt = Num (Finite 0)\<rparr>,
        isBusTracking = True\<rparr> \<and>
   liveMarkerShown (onLiveLocation Null
     (Obj [(''isTracking'', Bool True), (''trackingSessionId'', Str ''s1''),
           (''currentLocation'', Obj [(''latitude'', Num (Finite 11)),
                                      (''longitude'', Num (Finite 77))])]))"
    by (simp add: onBusSnapshot_def onLiveLocation_def liveMarkerShown_def Let_def getProp_def
        js_and_def js_or_def coalesce_def nullish_def numberIsFinite_def Number_def
        finiteOrZero_def)
  show ?thesis
    unfolding snap_def [symmetric] using c m cleared stored by simp
qed

section \<open>Properties of the recipient resolver and of the token pruning\<close>

text \<open>Every recipient's tokens are the truthy elements of some document's \<open>fcmTokens\<close>.\<close>

lemma tokensOf_truthy: "t \<in> set (tokensOf data) \<Longrightarrow> truthy t"
  by (auto simp: tokensOf_def split: jsval.splits)

lemma mapDocs_Inr:
  "mapDocs f xs = Inr ys \<Longrightarrow> y \<in> set ys \<Longrightarrow> \<exists>x \<in> set xs. f x = Inr y"
proof (induction xs arbitrary: ys)
  case Nil
  then show ?case by simp
next
  case (Cons x xs)
  then show ?case by (auto split: sum.splits)
qed

lemma dropNulls_set: "r \<in> set (dropNulls xs) \<longleftrightarrow> Some r \<in> set xs"
  by (induction xs rule: dropNulls.induct) auto

lemma busRecipient_tokens:
  "busRecipient doc = Inr (Some r) \<Longrightarrow> tokens r = tokensOf (snd doc)"
  by (auto simp: busRecipient_def split: prod.splits sum.splits if_splits)

lemma getRecipientsByBus_tokens:
  assumes "getRecipientsByBus db busNo = Inr rs" and "r \<in> set rs"
  shows "\<exists>data. tokens r = tokensOf data"
proof (cases "truthy busNo \<and> whereEq db ''busNumber'' busNo \<noteq> []")
  case False
  with assms show ?thesis by (auto simp: getRecipientsByBus_def Let_def split: if_splits)
next
  case True
  with assms(1) obtain ys where ys: "mapDocs busRecipient (whereEq db ''busNumber'' busNo) = Inr ys"
    and rs: "rs = dropNulls ys"
    by (auto simp: getRecipientsByBus_def Let_def split: sum.splits)
  from assms(2) rs have "Some r \<in> set ys" by (simp add: dropNulls_set)
  from mapDocs_Inr [OF ys this] obtain doc where "busRecipient doc = Inr (Some r)" by blast
  then show ?thesis using busRecipient_tokens by blast
qed

lemma getRecipientsByRole_tokens:
  assumes "getRecipientsByRole db roleArg = Inr rs" and "r \<in> set rs"
  shows "\<exists>data. tokens r = tokensOf data"
proof -
  from assms obtain doc normalizedRole where "r = roleRecipient normalizedRole doc"
    by (auto simp: getRecipientsByRole_def Let_def split: if_splits sum.splits)
  then have "tokens r = tokensOf (snd doc)"
    by (simp add: roleRecipient_def split: prod.splits)
  then show ?thesis by blast
qed

text \<open>
  Claim C7, as amended. Every token of every recipient that \<open>getRecipientsByBus\<close> or
  \<open>getRecipientsByRole\<close> returns is truthy: it is never the empty string, null or
  undefined. (A string of white space is truthy and is kept.)
\<close>

theorem recipient_tokens_truthy:
  assumes "getRecipientsByBus db busNo = Inr rs \<or> getRecipientsByRole db roleArg = Inr rs"
    and "r \<in> set rs" and "t \<in> set (tokens r)"
  shows "truthy t \<and> t \<noteq> Str [] \<and> t \<noteq> Null \<and> t \<noteq> Undefined"
proof -
  from assms(1,2) obtain data where "tokens r = tokensOf data"
    using getRecipientsByBus_tokens getRecipientsByRole_tokens by blast
  with assms(3) have "truthy t" by (simp add: tokensOf_truthy)
  then show ?thesis by auto
qed

lemma example_recipients_by_bus:
  "getRecipientsByBus
     [(''u1'', Obj [(''role'', Str ''Student''), (''busNumber'', Str ''B-12''),
                    (''fcmTokens'', Arr [Str [], Str ''tk1'', Str '' '', Null])]),
      (''u2'', Obj [(''role'', Str ''driver''), (''busNumber'', Str ''B-12''),
                    (''fcmTokens'', Arr [Str ''tk2''])])]
     (Str ''B-12'')
   = Inr [\<lparr>uid = ''u1'', role = ''student'', busNumber = Some (Str ''B-12''),
           tokens = [Str ''tk1'', Str '' '']\<rparr>]"
  by code_simp

lemma example_recipients_by_role:
  "getRecipientsByRole
     [(''m1'', Obj [(''role'', Str ''management''), (''fcmTokens'', Arr [Str '' '', Str []])])]
     (Str ''Management'')
   = Inr [\<lparr>uid = ''m1'', role = ''management'', busNumber = None, tokens = [Str '' '']\<rparr>]"
  by code_simp

text \<open>
  Witness of C7 as amended: the empty string and null are dropped from the tokens of \<open>u1\<close>.
\<close>

theorem recipient_tokens_truthy_witness:
  "getRecipientsByBus
     [(''u1'', Obj [(''role'', Str ''Student''), (''busNumber'', Str ''B-12''),
                    (''fcmTokens'', Arr [Str [], Str ''tk1'', Str '' '', Null])]),
      (''u2'', Obj [(''role'', Str ''driver''), (''busNumber'', Str ''B-12''),
                    (''fcmTokens'', Arr [Str ''tk2''])])]
     (Str ''B-12'')
   = Inr [\<lparr>uid = ''u1'', role = ''student'', busNumber = Some (Str ''B-12''),
           tokens = [Str ''tk1'', Str '' '']\<rparr>] \<and>
   truthy (Str ''tk1'') \<and> Str ''tk1'' \<noteq> Str []"
proof -
  let ?r = "\<lparr>uid = ''u1'', role = ''student'', busNumber = Some (Str ''B-12''),
           tokens = [Str ''tk1'', Str '' '']\<rparr>"
  note ex = example_recipients_by_bus
  have "truthy (Str ''tk1'') \<and> Str ''tk1'' \<noteq> Str [] \<and> Str ''tk1'' \<noteq> Null \<and> Str ''tk1'' \<noteq> Undefined"
    by (rule recipient_tokens_truthy [OF disjI1 [OF ex], of ?r]) simp_all
  with ex show ?thesis by blast
qed

text \<open>
  Counterexample to C7 as stated: the blank token \<open>" "\<close> of \<open>u1\<close> is returned.
\<close>

theorem recipient_tokens_blank_counterexample:
  "getRecipientsByBus
     [(''u1'', Obj [(''role'', Str ''Student''), (''busNumber'', Str ''B-12''),
                    (''fcmTokens'', Arr [Str [], Str ''tk1'', Str '' '', Null])]),
      (''u2'', Obj [(''role'', Str ''driver''), (''busNumber'', Str ''B-12''),
                    (''fcmTokens'', Arr [Str ''tk2''])])]
     (Str ''B-12'')
   = Inr [\<lparr>uid = ''u1'', role = ''student'', busNumber = Some (Str ''B-12''),
           tokens = [Str ''tk1'', Str '' '']\<rparr>] \<and>
   isBlank (Str '' '')"
  using example_recipients_by_bus by (simp add: isBlank_def isWhitespace_def)

subsection \<open>Token pruning\<close>

text \<open>
  The update of \<open>removeTokens\<close> is idempotent on a document, and \<open>update\<close> fails exactly
  when the document is missing.
\<close>

lemma getProp_setProp [simp]: "getProp (setProp v k x) k = x"
  by (cases v) (simp_all add: getProp_def setProp_def update_conv')

lemma setProp_idem [simp]: "setProp (setProp v k x) k x = setProp v k x"
  by (cases v) (simp_all add: setProp_def update_conv' AList.update_triv)

lemma arrayRemove_idem [simp]: "arrayRemove ts (arrayRemove ts field) = arrayRemove ts field"
  by (cases field) (simp_all add: arrayRemove_def)

lemma updateDoc_NotFound: "map_of db u = None \<Longrightarrow> updateDoc db u f = Inl NotFound"
  by (induction db) (auto split: if_splits)

lemma updateDoc_found:
  "map_of db u = Some d \<Longrightarrow>
   \<exists>db'. updateDoc db u f = Inr db' \<and> map_of db' u = Some (f d) \<and>
         (f (f d) = f d \<longrightarrow> updateDoc db' u f = Inr db')"
proof (induction db)
  case Nil
  then show ?case by simp
next
  case (Cons doc db)
  show ?case
  proof (cases "fst doc = u")
    case True
    with Cons.prems show ?thesis by (cases doc) auto
  next
    case False
    with Cons.prems have "map_of db u = Some d" by (cases doc) auto
    from Cons.IH [OF this] obtain db' where "updateDoc db u f = Inr db'"
      "map_of db' u = Some (f d)" "f (f d) = f d \<longrightarrow> updateDoc db' u f = Inr db'"
      by blast
    with False show ?thesis by (cases doc) auto
  qed
qed

text \<open>
  Claim C8. For a user id (a non-empty string), \<open>removeTokens(uid, [t])\<close> called twice in
  sequence returns both times without an error, the second call changes nothing, and the
  user's token set is then the original set without \<open>t\<close>.
\<close>

theorem removeTokens_idempotent:
  assumes "userId \<noteq> []"
  shows "\<exists>db1. removeTokens db userId [t] = Inr db1 \<and>
               removeTokens db1 userId [t] = Inr db1 \<and>
               tokenSet db1 userId = tokenSet db userId - {t}"
proof (cases "map_of db userId")
  case None
  then have "removeTokens db userId [t] = Inr db"
    using assms by (simp add: removeTokens_def updateDoc_NotFound)
  moreover have "tokenSet db userId = {}" using None by (simp add: tokenSet_def)
  ultimately show ?thesis by simp
next
  case (Some d)
  define f where
    "f = (\<lambda>data. setProp data ''fcmTokens'' (arrayRemove [t] (getProp data ''fcmTokens'')))"
  have idem: "f (f d) = f d" by (simp add: f_def)
  from updateDoc_found [OF Some, of f] idem obtain db1 where
    u1: "updateDoc db userId f = Inr db1" and m1: "map_of db1 userId = Some (f d)"
    and u2: "updateDoc db1 userId f = Inr db1"
    by blast
  have r1: "removeTokens db userId [t] = Inr db1"
    using assms u1 by (simp add: removeTokens_def f_def)
  have r2: "removeTokens db1 userId [t] = Inr db1"
    using assms u2 by (simp add: removeTokens_def f_def)
  have "tokenSet db1 userId = tokenSet db userId - {t}"
    using m1 Some
    by (cases "getProp d ''fcmTokens''") (auto simp: tokenSet_def f_def arrayRemove_def)
  with r1 r2 show ?thesis by blast
qed

lemma example_removeTokens:
  "removeTokens [(''u1'', Obj [(''role'', Str ''student''),
                               (''fcmTokens'', Arr [Str ''tk1'', Str ''dead'', Str ''tk1''])])]
     ''u1'' [Str ''tk1'']
   = Inr [(''u1'', Obj [(''role'', Str ''student''), (''fcmTokens'', Arr [Str ''dead''])])]"
  by code_simp

text \<open>Witness of C8: a token held twice is removed, and removing it again changes nothing.\<close>

theorem removeTokens_idempotent_witness:
  "''u1'' \<noteq> [] \<and>
   removeTokens [(''u1'', Obj [(''role'', Str ''student''),
                               (''fcmTokens'', Arr [Str ''tk1'', Str ''dead'', Str ''tk1''])])]
     ''u1'' [Str ''tk1'']
   = Inr [(''u1'', Obj [(''role'', Str ''student''), (''fcmTokens'', Arr [Str ''dead''])])] \<and>
   removeTokens [(''u1'', Obj [(''role'', Str ''student''), (''fcmTokens'', Arr [Str ''dead''])])]
     ''u1'' [Str ''tk1'']
   = Inr [(''u1'', Obj [(''role'', Str ''student''), (''fcmTokens'', Arr [Str ''dead''])])] \<and>
   tokenSet [(''u1'', Obj [(''role'', Str ''student''), (''fcmTokens'', Arr [Str ''dead''])])] ''u1''
   = tokenSet [(''u1'', Obj [(''role'', Str ''student''),
                             (''fcmTokens'', Arr [Str ''tk1'', Str ''dead'', Str ''tk1''])])] ''u1''
     - {Str ''tk1''}"
proof -
  have h: "''u1'' \<noteq> []" by simp
  from removeTokens_idempotent [OF h] obtain db1 where
    "removeTokens [(''u1'', Obj [(''role'', Str ''student''),
                               (''fcmTokens'', Arr [Str ''tk1'', Str ''dead'', Str ''tk1''])])]
       ''u1'' [Str ''tk1''] = Inr db1"
    "removeTokens db1 ''u1'' [Str ''tk1''] = Inr db1"
    "tokenSet db1 ''u1'' =
       tokenSet [(''u1'', Obj [(''role'', Str ''student''),
                               (''fcmTokens'', Arr [Str ''tk1'', Str ''dead'', Str ''tk1''])])] ''u1''
       - {Str ''tk1''}"
    by blast
  then show ?thesis using h by (simp add: example_removeTokens)
qed

section \<open>Properties of the trip-start request\<close>

text \<open>
  One round of the loop of \<open>postJson\<close>: a successful answer ends it with one more request
  sent; anything else records an error and goes on with the remaining candidates.
\<close>

lemma tryCandidates_success:
  "fetch (baseUrl @ path) body = Response True st txt (Some data) \<Longrightarrow>
   tryCandidates fetch path body (baseUrl # rest) errs = (Inr data, [(baseUrl @ path, body)])"
  by (simp add: Let_def)

lemma tryCandidates_failure:
  assumes "\<not> (\<exists>st tx data. fetch (baseUrl @ path) body = Response True st tx (Some data))"
  shows "\<exists>errs'. tryCandidates fetch path body (baseUrl # rest) errs =
           (fst (tryCandidates fetch path body rest errs'),
            (baseUrl @ path, body) # snd (tryCandidates fetch path body rest errs'))"
proof (cases "fetch (baseUrl @ path) body")
  case (NetworkError message)
  then show ?thesis
    by (intro exI [of _ "errs @ [(baseUrl, message)]"]) (simp add: Let_def split: prod.splits)
next
  case (Response ok st tx json)
  define message where
    "message = (if \<not> ok then (if tx \<noteq> [] then tx else ''HTTP '' @ string_of_nat st)
                else ''JSON Parse error'')"
  have "\<not> ok \<or> json = None"
    using Response assms by (cases json) auto
  with Response show ?thesis
    by (intro exI [of _ "errs @ [(baseUrl, message)]"])
       (auto simp: Let_def message_def split: prod.splits)
qed

lemma tryCandidates_requests:
  "req \<in> set (snd (tryCandidates fetch path body cands errs)) \<Longrightarrow>
   snd req = body \<and> (\<exists>base \<in> set cands. fst req = base @ path)"
proof (induction cands arbitrary: errs)
  case Nil
  then show ?case by simp
next
  case (Cons baseUrl rest)
  show ?case
  proof (cases "\<exists>st txt data. fetch (baseUrl @ path) body = Response True st txt (Some data)")
    case True
    then obtain st tx data where "fetch (baseUrl @ path) body = Response True st tx (Some data)"
      by blast
    from tryCandidates_success [where fetch = fetch and baseUrl = baseUrl and path = path, OF this] Cons.prems show ?thesis by simp
  next
    case False
    from tryCandidates_failure [where fetch = fetch and baseUrl = baseUrl and path = path, OF False, of rest errs] obtain errs' where
      "tryCandidates fetch path body (baseUrl # rest) errs =
         (fst (tryCandidates fetch path body rest errs'),
          (baseUrl @ path, body) # snd (tryCandidates fetch path body rest errs'))"
      by blast
    with Cons.prems have "req = (baseUrl @ path, body) \<or>
        req \<in> set (snd (tryCandidates fetch path body rest errs'))"
      by (simp del: tryCandidates.simps)
    then show ?thesis using Cons.IH by auto
  qed
qed

lemma tryCandidates_report:
  "fst (tryCandidates fetch path body cands errs) = Inr report \<Longrightarrow>
   \<exists>base \<in> set cands. \<exists>st txt. fetch (base @ path) body = Response True st txt (Some report)"
proof (induction cands arbitrary: errs)
  case Nil
  then show ?case by simp
next
  case (Cons baseUrl rest)
  show ?case
  proof (cases "\<exists>st txt data. fetch (baseUrl @ path) body = Response True st txt (Some data)")
    case True
    then obtain st tx data where f: "fetch (baseUrl @ path) body = Response True st tx (Some data)"
      by blast
    from tryCandidates_success [where fetch = fetch and baseUrl = baseUrl and path = path, OF this] Cons.prems have "data = report" by simp
    with f show ?thesis by auto
  next
    case False
    from tryCandidates_failure [where fetch = fetch and baseUrl = baseUrl and path = path, OF False, of rest errs] obtain errs' where
      "tryCandidates fetch path body (baseUrl # rest) errs =
         (fst (tryCandidates fetch path body rest errs'),
          (baseUrl @ path, body) # snd (tryCandidates fetch path body rest errs'))"
      by blast
    with Cons.prems have "fst (tryCandidates fetch path body rest errs') = Inr report"
      by (simp del: tryCandidates.simps)
    from Cons.IH [OF this] show ?thesis by auto
  qed
qed

lemma tryCandidates_succeeds:
  "\<exists>base \<in> set cands. \<exists>st txt report. fetch (base @ path) body = Response True st txt (Some report) \<Longrightarrow>
   \<exists>report. fst (tryCandidates fetch path body cands errs) = Inr report"
proof (induction cands arbitrary: errs)
  case Nil
  then show ?case by simp
next
  case (Cons baseUrl rest)
  show ?case
  proof (cases "\<exists>st txt data. fetch (baseUrl @ path) body = Response True st txt (Some data)")
    case True
    then obtain st tx data where "fetch (baseUrl @ path) body = Response True st tx (Some data)"
      by blast
    from tryCandidates_success [where fetch = fetch and baseUrl = baseUrl and path = path, OF this] show ?thesis by simp
  next
    case False
    with Cons.prems have "\<exists>base \<in> set rest. \<exists>st txt report.
        fetch (base @ path) body = Response True st txt (Some report)" by auto
    note ih = Cons.IH [OF this]
    from tryCandidates_failure [where fetch = fetch and baseUrl = baseUrl and path = path, OF False, of rest errs] obtain errs' where
      "tryCandidates fetch path body (baseUrl # rest) errs =
         (fst (tryCandidates fetch path body rest errs'),
          (baseUrl @ path, body) # snd (tryCandidates fetch path body rest errs'))"
      by blast
    then show ?thesis using ih [of errs'] by (simp del: tryCandidates.simps)
  qed
qed

lemma startBus_path [simp]: "startsWithSlash ''/startBus''"
  by (simp add: startsWithSlash_def)

text \<open>
  Claim C9. \<open>notifyBusTrackingStarted\<close> fails with an error, and sends no request, when
  \<open>busNumber\<close> is absent (falsy). Otherwise it is \<open>postJson\<close> of the path \<open>/startBus\<close>
  and the payload \<open>{busNumber, driverName, initiatedBy, excludeToken}\<close>: every request sent
  carries that payload to that path of a candidate server, a report returned is the JSON
  body of a server's successful answer, and a report is returned whenever some candidate
  answers successfully.
\<close>

theorem notify_requires_bus_number:
  "(\<not> truthy busNo \<longrightarrow>
      notifyBusTrackingStarted candidates fetch busNo driverName excludeUid excludeToken
        = (Inl BusNumberRequired, [])) \<and>
   (truthy busNo \<longrightarrow>
      (let payload = Obj [(''busNumber'', busNo),
                          (''driverName'', driverName),
                          (''initiatedBy'', if truthy excludeUid then excludeUid else Null),
                          (''excludeToken'', if truthy excludeToken then excludeToken else Null)];
           res = notifyBusTrackingStarted candidates fetch busNo driverName excludeUid excludeToken
       in res = postJson candidates fetch ''/startBus'' payload \<and>
          (\<forall>req \<in> set (snd res).
              snd req = payload \<and> (\<exists>base \<in> set candidates. fst req = base @ ''/startBus'')) \<and>
          (\<forall>report. fst res = Inr report \<longrightarrow>
              (\<exists>base \<in> set candidates. \<exists>st txt.
                  fetch (base @ ''/startBus'') payload = Response True st txt (Some report))) \<and>
          ((\<exists>base \<in> set candidates. \<exists>st txt report.
                  fetch (base @ ''/startBus'') payload = Response True st txt (Some report)) \<longrightarrow>
             (\<exists>report. fst res = Inr report))))"
proof -
  define payload where
    "payload = Obj [(''busNumber'', busNo),
                    (''driverName'', driverName),
                    (''initiatedBy'', if truthy excludeUid then excludeUid else Null),
                    (''excludeToken'', if truthy excludeToken then excludeToken else Null)]"
  have p: "startBusPayload busNo driverName excludeUid excludeToken = payload"
    by (auto simp: startBusPayload_def payload_def js_or_def defaultNull_def)
  have b: "js_or payload (Obj []) = payload"
    by (simp add: js_or_def payload_def)
  have n: "truthy busNo \<Longrightarrow>
      notifyBusTrackingStarted candidates fetch busNo driverName excludeUid excludeToken
        = tryCandidates fetch ''/startBus'' payload candidates []"
    by (simp add: notifyBusTrackingStarted_def postJson_def p b)
  have q: "postJson candidates fetch ''/startBus'' payload
        = tryCandidates fetch ''/startBus'' payload candidates []"
    by (simp add: postJson_def b)
  show ?thesis
    unfolding Let_def payload_def [symmetric]
  proof (intro conjI impI)
    show "notifyBusTrackingStarted candidates fetch busNo driverName excludeUid excludeToken
        = (Inl BusNumberRequired, [])" if "\<not> truthy busNo"
      using that by (simp add: notifyBusTrackingStarted_def)
  next
    assume t: "truthy busNo"
    show "notifyBusTrackingStarted candidates fetch busNo driverName excludeUid excludeToken
        = postJson candidates fetch ''/startBus'' payload"
      by (simp add: n [OF t] q)
    show "\<forall>req\<in>set (snd (notifyBusTrackingStarted candidates fetch busNo driverName excludeUid excludeToken)).
       snd req = payload \<and> (\<exists>base\<in>set candidates. fst req = base @ ''/startBus'')"
      unfolding n [OF t] using tryCandidates_requests by blast
    show "\<forall>report. fst (notifyBusTrackingStarted candidates fetch busNo driverName excludeUid excludeToken) = Inr report \<longrightarrow>
       (\<exists>base\<in>set candidates. \<exists>st txt. fetch (base @ ''/startBus'') payload = Response True st txt (Some report))"
      unfolding n [OF t] using tryCandidates_report by blast
    show "\<exists>report. fst (notifyBusTrackingStarted candidates fetch busNo driverName excludeUid excludeToken) = Inr report"
      if "\<exists>base\<in>set candidates. \<exists>st txt report. fetch (base @ ''/startBus'') payload = Response True st txt (Some report)"
      unfolding n [OF t] using that by (rule tryCandidates_succeeds)
  qed
qed

text \<open>
  Witness of C9: without a bus number nothing is sent; with one, the first server being
  unreachable, the report of the second is returned.
\<close>

theorem notify_requires_bus_number_witness:
  "\<not> truthy Undefined \<and>
   notifyBusTrackingStarted [''http://a'', ''http://b'']
     (\<lambda>url body. if url = ''http://b/startBus''
                 then Response True 200 [] (Some (Obj [(''attempted'', Num (Finite 3)),
                                                      (''succeeded'', Num (Finite 3)),
                                                      (''prunedCount'', Num (Finite 0))]))
                 else NetworkError ''Network request failed'')
     Undefined (Str ''Ravi'') Undefined Undefined
   = (Inl BusNumberRequired, []) \<and>
   truthy (Str ''B-12'') \<and>
   notifyBusTrackingStarted [''http://a'', ''http://b'']
     (\<lambda>url body. if url = ''http://b/startBus''
                 then Response True 200 [] (Some (Obj [(''attempted'', Num (Finite 3)),
                                                      (''succeeded'', Num (Finite 3)),
                                                      (''prunedCount'', Num (Finite 0))]))
                 else NetworkError ''Network request failed'')
     (Str ''B-12'') (Str ''Ravi'') (Str ''u1'') Undefined
   = (Inr (Obj [(''attempted'', Num (Finite 3)), (''succeeded'', Num (Finite 3)),
                (''prunedCount'', Num (Finite 0))]),
      [(''http://a/startBus'',
          Obj [(''busNumber'', Str ''B-12''), (''driverName'', Str ''Ravi''),
               (''initiatedBy'', Str ''u1''), (''excludeToken'', Null)]),
       (''http://b/startBus'',
          Obj [(''busNumber'', Str ''B-12''), (''driverName'', Str ''Ravi''),
               (''initiatedBy'', Str ''u1''), (''excludeToken'', Null)])])"
proof -
  define fetch :: "string \<Rightarrow> jsval \<Rightarrow> response" where
    "fetch = (\<lambda>url body. if url = ''http://b/startBus''
                 then Response True 200 [] (Some (Obj [(''attempted'', Num (Finite 3)),
                                                      (''succeeded'', Num (Finite 3)),
                                                      (''prunedCount'', Num (Finite 0))]))
                 else NetworkError ''Network request failed'')"
  have a: "notifyBusTrackingStarted [''http://a'', ''http://b''] fetch Undefined (Str ''Ravi'')
             Undefined Undefined = (Inl BusNumberRequired, [])"
    using notify_requires_bus_number
      [of Undefined "[''http://a'', ''http://b'']" fetch "Str ''Ravi''" Undefined Undefined]
    by simp
  have b: "notifyBusTrackingStarted [''http://a'', ''http://b''] fetch (Str ''B-12'') (Str ''Ravi'')
             (Str ''u1'') Undefined
           = postJson [''http://a'', ''http://b''] fetch ''/startBus''
               (Obj [(''busNumber'', Str ''B-12''), (''driverName'', Str ''Ravi''),
                     (''initiatedBy'', Str ''u1''), (''excludeToken'', Null)])"
    using notify_requires_bus_number
      [of "Str ''B-12''" "[''http://a'', ''http://b'']" fetch "Str ''Ravi''" "Str ''u1''" Undefined]
    by (simp add: Let_def)
  have c: "postJson [''http://a'', ''http://b''] fetch ''/startBus''
               (Obj [(''busNumber'', Str ''B-12''), (''driverName'', Str ''Ravi''),
                     (''initiatedBy'', Str ''u1''), (''excludeToken'', Null)])
           = (Inr (Obj [(''attempted'', Num (Finite 3)), (''succeeded'', Num (Finite 3)),
                (''prunedCount'', Num (Finite 0))]),
      [(''http://a/startBus'',
          Obj [(''busNumber'', Str ''B-12''), (''driverName'', Str ''Ravi''),
               (''initiatedBy'', Str ''u1''), (''excludeToken'', Null)]),
       (''http://b/startBus'',
          Obj [(''busNumber'', Str ''B-12''), (''driverName'', Str ''Ravi''),
               (''initiatedBy'', Str ''u1''), (''excludeToken'', Null)])])"
    by (simp add: postJson_def js_or_def fetch_def Let_def)
  show ?thesis
    unfolding fetch_def [symmetric] using a b c by simp
qed

section \<open>Properties of the admission filter\<close>

lemma num_le_not_lt: "num_le a b \<Longrightarrow> \<not> num_lt b a"
  by (cases a; cases b) auto

text \<open>
  Claim C6. \<open>admit\<close> rejects exactly when a previous sample exists and both the distance
  to it is below 20 m and the time since its capture is below 4 s; it accepts at 20 m or
  more whatever the time, at 4 s or more whatever the distance, and always without a
  previous sample.
\<close>

theorem admit_rejects_jitter:
  "(admit arith previous candidate = Reject \<longleftrightarrow>
      (\<exists>prev. previous = Some prev \<and>
              num_lt (haversineDistance arith prev candidate) (Finite 20) \<and>
              capturedAt candidate - capturedAt prev < 4)) \<and>
   (\<forall>prev. num_le (Finite 20) (haversineDistance arith prev candidate) \<longrightarrow>
           admit arith (Some prev) candidate = Accept) \<and>
   (\<forall>prev. 4 \<le> capturedAt candidate - capturedAt prev \<longrightarrow>
           admit arith (Some prev) candidate = Accept) \<and>
   admit arith None candidate = Accept"
  by (cases previous) (auto simp: admit_def dest: num_le_not_lt)

text \<open>
  Witness of C6: 10 m after 2 s is rejected; 20 m after 2 s and 10 m after 4 s are accepted.
\<close>

theorem admit_rejects_jitter_witness:
  "admit exactA (Some \<lparr>latitude = Finite 0, longitude = Finite 0, vehicleId = ''B-12'',
                 speedMetersPerSecond = 1, headingDegrees = 0, capturedAt = 100\<rparr>)
     \<lparr>latitude = Finite (10 * 180 / (6371000 * pi)), longitude = Finite 0, vehicleId = ''B-12'',
       speedMetersPerSecond = 1, headingDegrees = 0, capturedAt = 102\<rparr> = Reject \<and>
   admit exactA (Some \<lparr>latitude = Finite 0, longitude = Finite 0, vehicleId = ''B-12'',
                 speedMetersPerSecond = 1, headingDegrees = 0, capturedAt = 100\<rparr>)
     \<lparr>latitude = Finite (20 * 180 / (6371000 * pi)), longitude = Finite 0, vehicleId = ''B-12'',
       speedMetersPerSecond = 1, headingDegrees = 0, capturedAt = 102\<rparr> = Accept \<and>
   admit exactA (Some \<lparr>latitude = Finite 0, longitude = Finite 0, vehicleId = ''B-12'',
                 speedMetersPerSecond = 1, headingDegrees = 0, capturedAt = 100\<rparr>)
     \<lparr>latitude = Finite (10 * 180 / (6371000 * pi)), longitude = Finite 0, vehicleId = ''B-12'',
       speedMetersPerSecond = 1, headingDegrees = 0, capturedAt = 104\<rparr> = Accept"
proof -
  define p :: location_sample where
    "p = \<lparr>latitude = Finite 0, longitude = Finite 0, vehicleId = ''B-12'',
          speedMetersPerSecond = 1, headingDegrees = 0, capturedAt = 100\<rparr>"
  define c1 :: location_sample where
    "c1 = \<lparr>latitude = Finite (10 * 180 / (6371000 * pi)), longitude = Finite 0, vehicleId = ''B-12'',
       speedMetersPerSecond = 1, headingDegrees = 0, capturedAt = 102\<rparr>"
  define c2 :: location_sample where
    "c2 = \<lparr>latitude = Finite (20 * 180 / (6371000 * pi)), longitude = Finite 0, vehicleId = ''B-12'',
       speedMetersPerSecond = 1, headingDegrees = 0, capturedAt = 102\<rparr>"
  define c3 :: location_sample where
    "c3 = \<lparr>latitude = Finite (10 * 180 / (6371000 * pi)), longitude = Finite 0, vehicleId = ''B-12'',
       speedMetersPerSecond = 1, headingDegrees = 0, capturedAt = 104\<rparr>"
  have d1: "haversineDistance exactA p c1 = Finite 10"
    by (rule haversine_north_of_origin) (simp_all add: p_def c1_def)
  have d2: "haversineDistance exactA p c2 = Finite 20"
    by (rule haversine_north_of_origin) (simp_all add: p_def c2_def)
  have t1: "capturedAt c1 - capturedAt p < 4" by (simp add: p_def c1_def)
  have t3: "4 \<le> capturedAt c3 - capturedAt p" by (simp add: p_def c3_def)
  have "admit exactA (Some p) c1 = Reject"
    using admit_rejects_jitter [of exactA "Some p" c1] d1 t1 by simp
  moreover have "admit exactA (Some p) c2 = Accept"
    using admit_rejects_jitter [of exactA "Some p" c2] d2 by simp
  moreover have "admit exactA (Some p) c3 = Accept"
    using admit_rejects_jitter [of exactA "Some p" c3] t3 by simp
  ultimately show ?thesis
    unfolding p_def c1_def c2_def c3_def by simp
qed

end
